theory Spec2Isabelle
  imports
    Main
    "HOL-Library.AList"
    "HOL-Library.Char_ord"
    "HOL-Library.List_Lexorder"
    "HOL-Library.Product_Lexorder"
begin

section \<open>The snapshot reconciliation script, embedded\<close>

text \<open>
  The development follows \<^verbatim>\<open>scripts/validate_new_tree_and_output_rdf.py\<close>.
  A Python \<^verbatim>\<open>str\<close> is a \<^typ>\<open>string\<close>, each character standing for one code point
  (the model covers code points below 256). A \<^verbatim>\<open>dict\<close> whose iteration order the
  script relies on is an association list in insertion order (assignment to an existing key
  keeps its position, as \<^const>\<open>AList.update\<close> does); a \<^verbatim>\<open>dict\<close> that is only looked
  up is a map. A \<^verbatim>\<open>set\<close> is a HOL set; the order in which Python iterates over a
  set is not fixed by the language, so each function that loops over a set takes the iteration
  order as a parameter. \<^verbatim>\<open>sys.exit\<close> and an uncaught exception are the \<open>Inl\<close> branch
  of a sum; what was printed before the exit is not kept.
\<close>

subsection \<open>Column names and required-field tables (lines 33--50)\<close>

definition LABEL :: string where "LABEL = ''Primary Concept''"
definition RESOURCE_URI :: string where "RESOURCE_URI = ''Resource URI''"
definition ONCOTREE_CODE :: string where "ONCOTREE_CODE = ''notation (SKOS)''"
definition SCHEME_URI :: string where "SCHEME_URI = ''skos:inScheme URI''"
definition STATUS :: string where "STATUS = ''Status''"
definition INTERNAL_ID :: string where
  "INTERNAL_ID = ''clinicalCasesSubset (OncoTree Tumor Type)''"
definition COLOR :: string where "COLOR = ''color (OncoTree Tumor Type)''"
definition MAIN_TYPE :: string where "MAIN_TYPE = ''mainType (OncoTree Tumor Type)''"
definition PRECURSORS :: string where "PRECURSORS = ''precursors (OncoTree Tumor Type)''"
definition PREFERRED_LABEL :: string where "PREFERRED_LABEL = ''preferred label (SKOS)''"
definition REVOCATIONS :: string where "REVOCATIONS = ''revocations (OncoTree Tumor Type)''"
definition PARENT_RESOURCE_URI :: string where "PARENT_RESOURCE_URI = ''has broader (SKOS) URI''"
definition PARENT_LABEL :: string where "PARENT_LABEL = ''has broader (SKOS)''"
definition PARENT_ONCOTREE_CODE :: string where "PARENT_ONCOTREE_CODE = ''parent oncotree code''"

definition EXPECTED_HEADER :: "string list" where
  "EXPECTED_HEADER =
     [RESOURCE_URI, LABEL, SCHEME_URI, STATUS, INTERNAL_ID, COLOR, MAIN_TYPE, ONCOTREE_CODE,
      PRECURSORS, PREFERRED_LABEL, REVOCATIONS, PARENT_RESOURCE_URI, PARENT_LABEL]"

definition EXPECTED_HEADER_MODIFIED_FILE :: "string list" where
  "EXPECTED_HEADER_MODIFIED_FILE = EXPECTED_HEADER @ [PARENT_ONCOTREE_CODE]"

definition REQUIRED_FIELDS :: "string list" where
  "REQUIRED_FIELDS =
     [LABEL, SCHEME_URI, STATUS, INTERNAL_ID, COLOR, MAIN_TYPE, ONCOTREE_CODE,
      PREFERRED_LABEL, PARENT_RESOURCE_URI, PARENT_LABEL]"

definition TISSUE_NODE_REQUIRED_FIELDS :: "string list" where
  "TISSUE_NODE_REQUIRED_FIELDS =
     [RESOURCE_URI, LABEL, SCHEME_URI, STATUS, INTERNAL_ID, ONCOTREE_CODE, PREFERRED_LABEL]"

subsection \<open>Rows and files\<close>

text \<open>
  One row of \<^verbatim>\<open>csv.DictReader\<close>: a dict from column name to value. The thirteen columns
  of \<open>EXPECTED_HEADER\<close> are fields of the record; \<open>parent_oncotree_code\<close> is \<open>None\<close>
  when the file has no such column (\<^verbatim>\<open>PARENT_ONCOTREE_CODE in row\<close> is then false and
  \<^verbatim>\<open>row[PARENT_ONCOTREE_CODE]\<close> raises); \<open>other_columns\<close> holds the columns of the file
  that the script does not name. Every row is taken to carry a string for each column of its
  file's header (no short or over-long lines).
\<close>

record row =
  resource_uri :: string
  label :: string
  scheme_uri :: string
  status :: string
  internal_id :: string
  color :: string
  main_type :: string
  oncotree_code :: string
  precursors :: string
  preferred_label :: string
  revocations :: string
  parent_resource_uri :: string
  parent_label :: string
  parent_oncotree_code :: "string option"
  other_columns :: "(string \<times> string) list"

record csv_file =
  fieldnames :: "string list"
  rows :: "row list"

text \<open>The dict view of a row: \<^verbatim>\<open>row[name]\<close> is \<open>row_get row name\<close>, \<open>None\<close> for a
  missing key; \<open>row_keys\<close> lists the keys.\<close>

definition row_get :: "row \<Rightarrow> string \<Rightarrow> string option" where
  "row_get r name =
     (if name = RESOURCE_URI then Some (resource_uri r)
      else if name = LABEL then Some (label r)
      else if name = SCHEME_URI then Some (scheme_uri r)
      else if name = STATUS then Some (status r)
      else if name = INTERNAL_ID then Some (internal_id r)
      else if name = COLOR then Some (color r)
      else if name = MAIN_TYPE then Some (main_type r)
      else if name = ONCOTREE_CODE then Some (oncotree_code r)
      else if name = PRECURSORS then Some (precursors r)
      else if name = PREFERRED_LABEL then Some (preferred_label r)
      else if name = REVOCATIONS then Some (revocations r)
      else if name = PARENT_RESOURCE_URI then Some (parent_resource_uri r)
      else if name = PARENT_LABEL then Some (parent_label r)
      else if name = PARENT_ONCOTREE_CODE then parent_oncotree_code r
      else map_of (other_columns r) name)"

definition row_keys :: "row \<Rightarrow> string list" where
  "row_keys r =
     EXPECTED_HEADER
     @ (case parent_oncotree_code r of None \<Rightarrow> [] | Some _ \<Rightarrow> [PARENT_ONCOTREE_CODE])
     @ map fst (other_columns r)"

subsection \<open>Failures\<close>

datatype error =
    KeyError string
  | MissingExpectedFields "string set"
  | RequiredFieldEmpty string string
  | FieldNotUnique string string
  | TissueHasParent
  | InvalidSnapshot "string list" "string list"
  | ParentCodeNotFound string
  | ParentReferenceMissing string
  | NoCodeForInternalId string
  | NewNodeHasResourceUri string
  | PrecursorStillCurrent string
  | RevocationStillCurrent string
  | RevocationIsPrecursor string
  | RevokedByNewConcept string string
  | ResourceUriRequired string
  | ResourceUriChanged string
  | ChangesNotConfirmed

text \<open>
  \<open>KeyError k\<close> is Python's uncaught \<^verbatim>\<open>KeyError\<close>; \<open>ChangesNotConfirmed\<close> is
  \<^verbatim>\<open>sys.exit(2)\<close>; every other constructor is one \<^verbatim>\<open>sys.exit(1)\<close> of the script and
  carries what its message names. \<open>InvalidSnapshot\<close> carries the two accumulated lists that
  \<open>validate_csv_file\<close> prints before it exits.
\<close>

subsection \<open>Python strings and dicts\<close>

text \<open>\<^verbatim>\<open>str.isspace\<close> on one character, for code points below 256.\<close>

definition py_isspace :: "char \<Rightarrow> bool" where
  "py_isspace c =
     ((of_char c :: nat) \<in> {9, 10, 11, 12, 13, 28, 29, 30, 31, 32, 133, 160})"

text \<open>\<^verbatim>\<open>s.strip()\<close> and \<^verbatim>\<open>s.split()\<close> (no arguments).\<close>

definition py_strip :: "string \<Rightarrow> string" where
  "py_strip s = rev (dropWhile py_isspace (rev (dropWhile py_isspace s)))"

fun py_split_from :: "string \<Rightarrow> string \<Rightarrow> string list" where
  "py_split_from w [] = (if w = [] then [] else [w])"
| "py_split_from w (c # cs) =
     (if py_isspace c
      then (if w = [] then py_split_from [] cs else w # py_split_from [] cs)
      else py_split_from (w @ [c]) cs)"

definition py_split :: "string \<Rightarrow> string list" where
  "py_split s = py_split_from [] s"

text \<open>\<^verbatim>\<open>d[k]\<close> on a dict kept as an association list.\<close>

definition dict_get :: "(string \<times> 'v) list \<Rightarrow> string \<Rightarrow> error + 'v" where
  "dict_get d k = (case map_of d k of None \<Rightarrow> Inl (KeyError k) | Some v \<Rightarrow> Inr v)"

definition dict_keys :: "(string \<times> 'v) list \<Rightarrow> string list" where
  "dict_keys d = map fst d"

definition construct_pretty_label_for_row :: "string \<Rightarrow> string \<Rightarrow> string \<Rightarrow> string" where
  "construct_pretty_label_for_row iid code lbl = iid @ '': '' @ lbl @ '' ('' @ code @ '')''"

subsection \<open>Parent resolution (lines 91--126)\<close>

fun get_resource_uri_to_internal_ids_from ::
  "(string \<times> string) list \<Rightarrow> row list \<Rightarrow> (string \<times> string) list" where
  "get_resource_uri_to_internal_ids_from d [] = d"
| "get_resource_uri_to_internal_ids_from d (r # rs) =
     get_resource_uri_to_internal_ids_from (AList.update (resource_uri r) (internal_id r) d) rs"

definition get_resource_uri_to_internal_ids :: "csv_file \<Rightarrow> (string \<times> string) list" where
  "get_resource_uri_to_internal_ids f = get_resource_uri_to_internal_ids_from [] (rows f)"

fun get_oncotree_codes_to_internal_ids_from ::
  "(string \<times> string) list \<Rightarrow> row list \<Rightarrow> (string \<times> string) list" where
  "get_oncotree_codes_to_internal_ids_from d [] = d"
| "get_oncotree_codes_to_internal_ids_from d (r # rs) =
     get_oncotree_codes_to_internal_ids_from (AList.update (oncotree_code r) (internal_id r) d) rs"

definition get_oncotree_codes_to_internal_ids :: "csv_file \<Rightarrow> (string \<times> string) list" where
  "get_oncotree_codes_to_internal_ids f = get_oncotree_codes_to_internal_ids_from [] (rows f)"

text \<open>The parent code argument is \<open>None\<close> where the caller passes Python's \<^verbatim>\<open>None\<close>;
  \<^verbatim>\<open>None\<close> and the empty string are both false in \<^verbatim>\<open>if parent_oncotree_code\<close>.\<close>

definition get_parent_internal_id ::
  "string \<Rightarrow> string \<Rightarrow> string option \<Rightarrow> (string \<times> string) list \<Rightarrow> (string \<times> string) list
    \<Rightarrow> error + string" where
  "get_parent_internal_id child_internal_id parent_resource_uri' parent_oncotree_code'
      oncotree_codes_to_internal_ids resource_uri_to_internal_ids =
     (case parent_oncotree_code' of
        Some (c # cs) \<Rightarrow>
          (case map_of oncotree_codes_to_internal_ids (c # cs) of
             Some i \<Rightarrow> Inr i
           | None \<Rightarrow> Inl (ParentCodeNotFound (c # cs)))
      | _ \<Rightarrow>
          if parent_resource_uri' = [] then Inl (ParentReferenceMissing child_internal_id)
          else dict_get resource_uri_to_internal_ids parent_resource_uri')"

text \<open>The loop of \<open>get_oncotree_code_from_internal_id\<close> walks the dict in insertion order
  and returns at the first code whose value is the id.\<close>

fun get_oncotree_code_from_internal_id :: "(string \<times> string) list \<Rightarrow> string \<Rightarrow> error + string" where
  "get_oncotree_code_from_internal_id [] iid = Inl (NoCodeForInternalId iid)"
| "get_oncotree_code_from_internal_id ((code, i) # d) iid =
     (if i = iid then Inr code else get_oncotree_code_from_internal_id d iid)"

subsection \<open>Loading a snapshot (lines 305--316)\<close>

text \<open>\<open>get_oncotree\<close> returns the dict from internal id to row; the second component is
  the list of nodes (as pretty labels) for which the warning line was printed.\<close>

fun get_oncotree_from ::
  "(string \<times> row) list \<Rightarrow> string list \<Rightarrow> row list \<Rightarrow> (string \<times> row) list \<times> string list" where
  "get_oncotree_from internal_id_to_data warnings [] = (internal_id_to_data, warnings)"
| "get_oncotree_from internal_id_to_data warnings (r # rs) =
     (let pretty_label = construct_pretty_label_for_row (internal_id r) (oncotree_code r) (label r);
          warnings' = (if status r \<noteq> ''Published'' then warnings @ [pretty_label] else warnings)
      in get_oncotree_from (AList.update (internal_id r) r internal_id_to_data) warnings' rs)"

definition get_oncotree :: "csv_file \<Rightarrow> (string \<times> row) list \<times> string list" where
  "get_oncotree f = get_oncotree_from [] [] (rows f)"

subsection \<open>Validating one snapshot (lines 318--401)\<close>

definition field_is_required :: "string \<Rightarrow> string \<Rightarrow> string \<Rightarrow> error + unit" where
  "field_is_required field field_name iid =
     (if field = [] then Inl (RequiredFieldEmpty field_name iid) else Inr ())"

definition field_is_unique :: "string \<Rightarrow> string \<Rightarrow> string set \<Rightarrow> error + unit" where
  "field_is_unique field field_name column_set =
     (if field \<noteq> [] \<and> field \<in> column_set then Inl (FieldNotUnique field_name field)
      else Inr ())"

text \<open>Lines 329--332, as written: the first argument is not used, the second is the key of
  all three lookups. The subscript raises when the key is missing.\<close>

definition parent_resource_uri_and_label_are_valid ::
  "string \<Rightarrow> string \<Rightarrow> (string \<rightharpoonup> string) \<Rightarrow> (string \<rightharpoonup> string) \<Rightarrow> (string \<rightharpoonup> string)
    \<Rightarrow> error + bool" where
  "parent_resource_uri_and_label_are_valid parent_resource_uri' parent_label'
      child_to_parent_resource_uris child_uri_to_child_label child_to_parent_labels =
     (if child_to_parent_labels parent_label' \<noteq> None
         \<and> child_to_parent_resource_uris parent_label' \<noteq> None
      then (case child_uri_to_child_label parent_label' of
              None \<Rightarrow> Inl (KeyError parent_label')
            | Some l \<Rightarrow> Inr (l = parent_label'))
      else Inr False)"

record tables =
  child_to_parent_resource_uris :: "string \<rightharpoonup> string"
  child_to_parent_labels :: "string \<rightharpoonup> string"
  child_uri_to_child_label :: "string \<rightharpoonup> string"
  resource_uri_set :: "string set"
  internal_id_set :: "string set"
  oncotree_code_set :: "string set"

definition empty_tables :: tables where
  "empty_tables =
     \<lparr>child_to_parent_resource_uris = Map.empty, child_to_parent_labels = Map.empty,
      child_uri_to_child_label = Map.empty, resource_uri_set = {}, internal_id_set = {},
      oncotree_code_set = {}\<rparr>"

text \<open>The loop of lines 361--362 over the required fields of one row.\<close>

fun check_required_fields :: "row \<Rightarrow> string list \<Rightarrow> error + unit" where
  "check_required_fields r [] = Inr ()"
| "check_required_fields r (field # more_fields) =
     (case row_get r field of
        None \<Rightarrow> Inl (KeyError field)
      | Some v \<Rightarrow>
          (case field_is_required v field (internal_id r) of
             Inl e \<Rightarrow> Inl e
           | Inr _ \<Rightarrow> check_required_fields r more_fields))"

definition required_fields_of :: "row \<Rightarrow> string list" where
  "required_fields_of r =
     (if oncotree_code r = ''TISSUE'' then TISSUE_NODE_REQUIRED_FIELDS else REQUIRED_FIELDS)"

text \<open>The body of the first loop (lines 354--371) on one row.\<close>

definition first_pass_row :: "tables \<Rightarrow> row \<Rightarrow> error + tables" where
  "first_pass_row t r =
     (let t1 = t\<lparr>child_to_parent_resource_uris :=
                   (child_to_parent_resource_uris t)(resource_uri r \<mapsto> parent_resource_uri r),
                 child_uri_to_child_label :=
                   (child_uri_to_child_label t)(resource_uri r \<mapsto> label r),
                 child_to_parent_labels :=
                   (child_to_parent_labels t)(label r \<mapsto> parent_label r)\<rparr>
      in case check_required_fields r (required_fields_of r) of
           Inl e \<Rightarrow> Inl e
         | Inr _ \<Rightarrow>
       (case field_is_unique (resource_uri r) RESOURCE_URI (resource_uri_set t1) of
           Inl e \<Rightarrow> Inl e
         | Inr _ \<Rightarrow>
       (case field_is_unique (internal_id r) INTERNAL_ID (internal_id_set t1) of
           Inl e \<Rightarrow> Inl e
         | Inr _ \<Rightarrow>
       (case field_is_unique (oncotree_code r) ONCOTREE_CODE (oncotree_code_set t1) of
           Inl e \<Rightarrow> Inl e
         | Inr _ \<Rightarrow>
             Inr (t1\<lparr>resource_uri_set := insert (resource_uri r) (resource_uri_set t1),
                     internal_id_set := insert (internal_id r) (internal_id_set t1),
                     oncotree_code_set := insert (oncotree_code r) (oncotree_code_set t1)\<rparr>)))))"

text \<open>The first loop (lines 353--371), from the tables built so far.\<close>

fun first_pass :: "tables \<Rightarrow> row list \<Rightarrow> error + tables" where
  "first_pass t [] = Inr t"
| "first_pass t (r # rs) =
     (case first_pass_row t r of Inl e \<Rightarrow> Inl e | Inr t' \<Rightarrow> first_pass t' rs)"

definition label_mismatch_message :: "row \<Rightarrow> string" where
  "label_mismatch_message r =
     internal_id r @ '': '' @ [CHR 0x27] @ label r @ [CHR 0x27] @ '' != ''
       @ [CHR 0x27] @ preferred_label r @ [CHR 0x27]"

definition parent_invalid_message :: "row \<Rightarrow> string" where
  "parent_invalid_message r =
     internal_id r @ '': URI '' @ [CHR 0x27] @ parent_resource_uri r @ [CHR 0x27]
       @ '' and label '' @ [CHR 0x27] @ parent_label r @ [CHR 0x27]"

definition tissue_has_parent_field :: "row \<Rightarrow> bool" where
  "tissue_has_parent_field r =
     (parent_resource_uri r \<noteq> [] \<or> parent_label r \<noteq> []
      \<or> (case parent_oncotree_code r of None \<Rightarrow> False | Some c \<Rightarrow> c \<noteq> []))"

text \<open>The second loop (lines 377--388), over the tables the first loop has completed; it
  returns the two accumulated lists.\<close>

fun second_pass ::
  "tables \<Rightarrow> string list \<Rightarrow> string list \<Rightarrow> row list \<Rightarrow> error + (string list \<times> string list)" where
  "second_pass t label_mismatch_errors parent_invalid_errors [] =
     Inr (label_mismatch_errors, parent_invalid_errors)"
| "second_pass t label_mismatch_errors parent_invalid_errors (r # rs) =
     (let label_mismatch_errors' =
            (if label r \<noteq> preferred_label r
             then label_mismatch_errors @ [label_mismatch_message r]
             else label_mismatch_errors)
      in if oncotree_code r \<noteq> ''TISSUE'' then
           (case parent_resource_uri_and_label_are_valid (parent_resource_uri r) (parent_label r)
                   (child_to_parent_resource_uris t) (child_uri_to_child_label t)
                   (child_to_parent_labels t) of
              Inl e \<Rightarrow> Inl e
            | Inr True \<Rightarrow>
                second_pass t label_mismatch_errors'
                  (parent_invalid_errors @ [parent_invalid_message r]) rs
            | Inr False \<Rightarrow> second_pass t label_mismatch_errors' parent_invalid_errors rs)
         else if tissue_has_parent_field r then Inl TissueHasParent
         else second_pass t label_mismatch_errors' parent_invalid_errors rs)"

definition validate_csv_file :: "csv_file \<Rightarrow> string list \<Rightarrow> error + unit" where
  "validate_csv_file f expected_header =
     (let missing_fields = set expected_header - set (fieldnames f)
      in if missing_fields \<noteq> {} then Inl (MissingExpectedFields missing_fields)
         else
           (case first_pass empty_tables (rows f) of
              Inl e \<Rightarrow> Inl e
            | Inr t \<Rightarrow>
                (case second_pass t [] [] (rows f) of
                   Inl e \<Rightarrow> Inl e
                 | Inr (label_mismatch_errors, parent_invalid_errors) \<Rightarrow>
                     if label_mismatch_errors \<noteq> [] \<or> parent_invalid_errors \<noteq> []
                     then Inl (InvalidSnapshot label_mismatch_errors parent_invalid_errors)
                     else Inr ())))"

subsection \<open>Precursor and revocation indices (lines 67--89)\<close>

text \<open>A \<^verbatim>\<open>defaultdict(set)\<close>: \<^verbatim>\<open>d[k]\<close> is the empty set when \<open>k\<close> is not a key,
  and \<^verbatim>\<open>d[k].add(x)\<close> starts from it. \<open>index_add\<close> is the inner loop over the
  whitespace-separated ids of one row.\<close>

definition index_get :: "(string \<times> string set) list \<Rightarrow> string \<Rightarrow> string set" where
  "index_get d k = (case map_of d k of None \<Rightarrow> {} | Some ids \<Rightarrow> ids)"

fun index_add ::
  "(string \<times> string set) list \<Rightarrow> string \<Rightarrow> string list \<Rightarrow> (string \<times> string set) list" where
  "index_add d iid [] = d"
| "index_add d iid (source_id # source_ids) =
     index_add (AList.update source_id (insert iid (index_get d source_id)) d) iid source_ids"

fun get_all_precursors_from ::
  "(string \<times> string set) list \<Rightarrow> row list \<Rightarrow> (string \<times> string set) list" where
  "get_all_precursors_from d [] = d"
| "get_all_precursors_from d (r # rs) =
     get_all_precursors_from
       (if precursors r \<noteq> [] then index_add d (internal_id r) (py_split (precursors r)) else d)
       rs"

definition get_all_precursors :: "csv_file \<Rightarrow> (string \<times> string set) list" where
  "get_all_precursors f = get_all_precursors_from [] (rows f)"

fun get_all_revocations_from ::
  "(string \<times> string set) list \<Rightarrow> row list \<Rightarrow> (string \<times> string set) list" where
  "get_all_revocations_from d [] = d"
| "get_all_revocations_from d (r # rs) =
     get_all_revocations_from
       (if revocations r \<noteq> [] then index_add d (internal_id r) (py_split (revocations r)) else d)
       rs"

definition get_all_revocations :: "csv_file \<Rightarrow> (string \<times> string set) list" where
  "get_all_revocations f = get_all_revocations_from [] (rows f)"

subsection \<open>Reconciliation (lines 128--300)\<close>

text \<open>An iteration order for Python sets: every element of a finite set, once.\<close>

definition iteration_order :: "('a set \<Rightarrow> 'a list) \<Rightarrow> bool" where
  "iteration_order enum = (\<forall>S. finite S \<longrightarrow> set (enum S) = S \<and> distinct (enum S))"

definition pretty_label_of :: "row \<Rightarrow> string" where
  "pretty_label_of data =
     construct_pretty_label_for_row (internal_id data) (oncotree_code data) (label data)"

definition quoted :: "string \<Rightarrow> string" where
  "quoted s = [CHR 0x27] @ s @ [CHR 0x27]"

text \<open>Lines 154--162: the removed ids, in sorted order.\<close>

fun removed_section :: "(string \<times> row) list \<Rightarrow> string list \<Rightarrow> error + string list" where
  "removed_section original_oncotree [] = Inr []"
| "removed_section original_oncotree (iid # ids) =
     (case dict_get original_oncotree iid of
        Inl e \<Rightarrow> Inl e
      | Inr data \<Rightarrow>
          (case removed_section original_oncotree ids of
             Inl e \<Rightarrow> Inl e
           | Inr lines \<Rightarrow> Inr ((CHR 0x09 # pretty_label_of data) # lines)))"

text \<open>Lines 164--179: the new ids, in sorted order.\<close>

fun new_section ::
  "(string \<times> row) list \<Rightarrow> (string \<times> string) list \<Rightarrow> (string \<times> string) list \<Rightarrow> string list
    \<Rightarrow> error + string list" where
  "new_section modified_oncotree oncotree_codes_to_internal_ids
      modified_resource_uri_to_internal_ids [] = Inr []"
| "new_section modified_oncotree oncotree_codes_to_internal_ids
      modified_resource_uri_to_internal_ids (iid # ids) =
     (case dict_get modified_oncotree iid of
        Inl e \<Rightarrow> Inl e
      | Inr data \<Rightarrow>
          if resource_uri data \<noteq> [] then Inl (NewNodeHasResourceUri (pretty_label_of data))
          else
            (case parent_oncotree_code data of
               None \<Rightarrow> Inl (KeyError PARENT_ONCOTREE_CODE)
             | Some pc \<Rightarrow>
            (case get_parent_internal_id iid (parent_resource_uri data) (Some pc)
                    oncotree_codes_to_internal_ids modified_resource_uri_to_internal_ids of
               Inl e \<Rightarrow> Inl e
             | Inr parent_internal_id \<Rightarrow>
            (case dict_get modified_oncotree parent_internal_id of
               Inl e \<Rightarrow> Inl e
             | Inr parent_data \<Rightarrow>
            (case new_section modified_oncotree oncotree_codes_to_internal_ids
                    modified_resource_uri_to_internal_ids ids of
               Inl e \<Rightarrow> Inl e
             | Inr lines \<Rightarrow>
                 Inr ((CHR 0x09 # pretty_label_of data @ '' has parent ''
                        @ construct_pretty_label_for_row parent_internal_id
                            (oncotree_code parent_data) (label parent_data)) # lines))))))"

definition lineage_line :: "string \<Rightarrow> string \<Rightarrow> row \<Rightarrow> string" where
  "lineage_line source_id source_code data =
     CHR 0x09 # quoted source_id @ '' ('' @ quoted source_code @ '') -> ''
       @ quoted (pretty_label_of data)"

definition code_or_unknown :: "(string \<rightharpoonup> string) \<Rightarrow> string \<Rightarrow> string" where
  "code_or_unknown internal_id_to_oncocodes iid =
     (case internal_id_to_oncocodes iid of Some code \<Rightarrow> code | None \<Rightarrow> ''unknown'')"

text \<open>Lines 190--193: the successors of one precursor, in the set's iteration order.\<close>

fun precursor_of_lines ::
  "(string \<times> row) list \<Rightarrow> string \<Rightarrow> string \<Rightarrow> string list \<Rightarrow> error + string list" where
  "precursor_of_lines modified_oncotree precursor_id precursor_code [] = Inr []"
| "precursor_of_lines modified_oncotree precursor_id precursor_code (iid # ids) =
     (case dict_get modified_oncotree iid of
        Inl e \<Rightarrow> Inl e
      | Inr data \<Rightarrow>
          (case precursor_of_lines modified_oncotree precursor_id precursor_code ids of
             Inl e \<Rightarrow> Inl e
           | Inr lines \<Rightarrow> Inr (lineage_line precursor_id precursor_code data # lines)))"

text \<open>Lines 181--195: the precursor ids, in sorted order.\<close>

fun precursors_section ::
  "(string set \<Rightarrow> string list) \<Rightarrow> (string \<times> row) list \<Rightarrow> (string \<times> string set) list
    \<Rightarrow> (string \<rightharpoonup> string) \<Rightarrow> string set \<Rightarrow> string list \<Rightarrow> error + string list" where
  "precursors_section enum modified_oncotree precursor_id_to_internal_ids
      internal_id_to_oncocodes modified_internal_id_set [] = Inr []"
| "precursors_section enum modified_oncotree precursor_id_to_internal_ids
      internal_id_to_oncocodes modified_internal_id_set (precursor_id # ids) =
     (if precursor_id \<in> modified_internal_id_set then Inl (PrecursorStillCurrent precursor_id)
      else
        (case precursor_of_lines modified_oncotree precursor_id
                (code_or_unknown internal_id_to_oncocodes precursor_id)
                (enum (index_get precursor_id_to_internal_ids precursor_id)) of
           Inl e \<Rightarrow> Inl e
         | Inr lines \<Rightarrow>
        (case precursors_section enum modified_oncotree precursor_id_to_internal_ids
                internal_id_to_oncocodes modified_internal_id_set ids of
           Inl e \<Rightarrow> Inl e
         | Inr more_lines \<Rightarrow> Inr (lines @ more_lines))))"

text \<open>Lines 208--214: the successors of one revocation, in the set's iteration order.\<close>

fun revocation_of_lines ::
  "(string \<times> row) list \<Rightarrow> string set \<Rightarrow> string \<Rightarrow> string \<Rightarrow> string list \<Rightarrow> error + string list" where
  "revocation_of_lines modified_oncotree new_internal_ids revocation_id revocation_code [] =
     Inr []"
| "revocation_of_lines modified_oncotree new_internal_ids revocation_id revocation_code
      (iid # ids) =
     (if iid \<in> new_internal_ids then Inl (RevokedByNewConcept revocation_id iid)
      else
        (case dict_get modified_oncotree iid of
           Inl e \<Rightarrow> Inl e
         | Inr data \<Rightarrow>
             (case revocation_of_lines modified_oncotree new_internal_ids revocation_id
                     revocation_code ids of
                Inl e \<Rightarrow> Inl e
              | Inr lines \<Rightarrow> Inr (lineage_line revocation_id revocation_code data # lines))))"

text \<open>Lines 197--216: the revocation ids, in sorted order.\<close>

fun revocations_section ::
  "(string set \<Rightarrow> string list) \<Rightarrow> (string \<times> row) list \<Rightarrow> (string \<times> string set) list
    \<Rightarrow> (string \<times> string set) list \<Rightarrow> (string \<rightharpoonup> string) \<Rightarrow> string set \<Rightarrow> string set
    \<Rightarrow> string list \<Rightarrow> error + string list" where
  "revocations_section enum modified_oncotree precursor_id_to_internal_ids
      revocation_id_to_internal_ids internal_id_to_oncocodes modified_internal_id_set
      new_internal_ids [] = Inr []"
| "revocations_section enum modified_oncotree precursor_id_to_internal_ids
      revocation_id_to_internal_ids internal_id_to_oncocodes modified_internal_id_set
      new_internal_ids (revocation_id # ids) =
     (if revocation_id \<in> modified_internal_id_set then Inl (RevocationStillCurrent revocation_id)
      else if map_of precursor_id_to_internal_ids revocation_id \<noteq> None
      then Inl (RevocationIsPrecursor revocation_id)
      else
        (case revocation_of_lines modified_oncotree new_internal_ids revocation_id
                (code_or_unknown internal_id_to_oncocodes revocation_id)
                (enum (index_get revocation_id_to_internal_ids revocation_id)) of
           Inl e \<Rightarrow> Inl e
         | Inr lines \<Rightarrow>
        (case revocations_section enum modified_oncotree precursor_id_to_internal_ids
                revocation_id_to_internal_ids internal_id_to_oncocodes modified_internal_id_set
                new_internal_ids ids of
           Inl e \<Rightarrow> Inl e
         | Inr more_lines \<Rightarrow> Inr (lines @ more_lines))))"

text \<open>Lines 181--216 together: the precursor summary, then the revocation summary.\<close>

definition lineage_section ::
  "(string set \<Rightarrow> string list) \<Rightarrow> (string \<times> row) list \<Rightarrow> (string \<times> string set) list
    \<Rightarrow> (string \<times> string set) list \<Rightarrow> (string \<rightharpoonup> string) \<Rightarrow> string set \<Rightarrow> string set
    \<Rightarrow> error + (string list \<times> string list)" where
  "lineage_section enum modified_oncotree precursor_id_to_internal_ids
      revocation_id_to_internal_ids internal_id_to_oncocodes modified_internal_id_set
      new_internal_ids =
     (case precursors_section enum modified_oncotree precursor_id_to_internal_ids
             internal_id_to_oncocodes modified_internal_id_set
             (sort (dict_keys precursor_id_to_internal_ids)) of
        Inl e \<Rightarrow> Inl e
      | Inr precursor_lines \<Rightarrow>
          (case revocations_section enum modified_oncotree precursor_id_to_internal_ids
                  revocation_id_to_internal_ids internal_id_to_oncocodes
                  modified_internal_id_set new_internal_ids
                  (sort (dict_keys revocation_id_to_internal_ids)) of
             Inl e \<Rightarrow> Inl e
           | Inr revocation_lines \<Rightarrow> Inr (precursor_lines, revocation_lines)))"

text \<open>
  \<^verbatim>\<open>DeepDiff(original_data, modified_data, ignore_order=True)['values_changed']\<close>, from the
  \<^verbatim>\<open>deepdiff\<close> library (not part of the repository): on two dicts of strings it has one
  entry \<^verbatim>\<open>root['k']\<close> for each key \<open>k\<close> of both dicts whose two values differ; a key of
  one dict only is reported under another heading. The entries are kept here by column name.
  The result has no \<^verbatim>\<open>'values_changed'\<close> key when there is no such entry, so the
  subscript of line 227 raises then.
\<close>

definition DeepDiff_values_changed :: "row \<Rightarrow> row \<Rightarrow> string list" where
  "DeepDiff_values_changed t1 t2 =
     filter (\<lambda>k. case (row_get t1 k, row_get t2 k) of
                   (Some v1, Some v2) \<Rightarrow> v1 \<noteq> v2
                 | _ \<Rightarrow> False)
       (row_keys t1)"

definition change_line :: "row \<Rightarrow> row \<Rightarrow> string" where
  "change_line original_data modified_data =
     CHR 0x09 # quoted (pretty_label_of original_data) @ '' -> ''
       @ quoted (pretty_label_of modified_data)"

text \<open>Lines 218--236: the loop over the set of (removed, new) pairs, in the set's iteration
  order. Each printed line is returned with the pair it is about.\<close>

fun id_change_section ::
  "(string \<times> row) list \<Rightarrow> (string \<times> row) list \<Rightarrow> (string \<times> string) list
    \<Rightarrow> error + ((string \<times> string) \<times> string) list" where
  "id_change_section original_oncotree modified_oncotree [] = Inr []"
| "id_change_section original_oncotree modified_oncotree (pair # pairs) =
     (case dict_get original_oncotree (fst pair) of
        Inl e \<Rightarrow> Inl e
      | Inr original_data \<Rightarrow>
     (case dict_get modified_oncotree (snd pair) of
        Inl e \<Rightarrow> Inl e
      | Inr modified_data \<Rightarrow>
          if DeepDiff_values_changed original_data modified_data = []
          then Inl (KeyError ''values_changed'')
          else
            (case id_change_section original_oncotree modified_oncotree pairs of
               Inl e \<Rightarrow> Inl e
             | Inr lines \<Rightarrow>
                 if filter (\<lambda>x. x \<noteq> INTERNAL_ID)
                      (DeepDiff_values_changed original_data modified_data) = []
                 then Inr ((pair, change_line original_data modified_data) # lines)
                 else Inr lines)))"

text \<open>Lines 262--270: the parent code of a retained node in the modified snapshot.\<close>

definition modified_parent_code ::
  "string \<Rightarrow> row \<Rightarrow> (string \<times> string) list \<Rightarrow> (string \<times> string) list \<Rightarrow> error + string" where
  "modified_parent_code iid modified_data oncotree_codes_to_internal_ids
      modified_resource_uri_to_internal_ids =
     (case parent_oncotree_code modified_data of
        None \<Rightarrow> Inl (KeyError PARENT_ONCOTREE_CODE)
      | Some modified_parent_oncotree_code \<Rightarrow>
          if modified_parent_oncotree_code \<noteq> [] then Inr modified_parent_oncotree_code
          else
            (case get_parent_internal_id iid (parent_resource_uri modified_data)
                    (Some modified_parent_oncotree_code) oncotree_codes_to_internal_ids
                    modified_resource_uri_to_internal_ids of
               Inl e \<Rightarrow> Inl e
             | Inr modified_parent_internal_id \<Rightarrow>
                 get_oncotree_code_from_internal_id oncotree_codes_to_internal_ids
                   modified_parent_internal_id))"

text \<open>Lines 274--279: the parent code of a retained node in the original snapshot, through
  the original URI map and the modified snapshot's code map.\<close>

definition original_parent_code ::
  "string \<Rightarrow> row \<Rightarrow> (string \<times> string) list \<Rightarrow> (string \<times> string) list \<Rightarrow> error + string" where
  "original_parent_code iid original_data oncotree_codes_to_internal_ids
      original_resource_uri_to_internal_ids =
     (case get_parent_internal_id iid (parent_resource_uri original_data) None
             oncotree_codes_to_internal_ids original_resource_uri_to_internal_ids of
        Inl e \<Rightarrow> Inl e
      | Inr original_parent_internal_id \<Rightarrow>
          get_oncotree_code_from_internal_id oncotree_codes_to_internal_ids
            original_parent_internal_id)"

definition parent_change_line :: "row \<Rightarrow> string \<Rightarrow> row \<Rightarrow> string \<Rightarrow> string" where
  "parent_change_line original_data original_parent_oncotree_code modified_data
      modified_parent_oncotree_code =
     CHR 0x09 # ''child: '' @ quoted (pretty_label_of original_data) @ '' parent: ''
       @ quoted original_parent_oncotree_code @ '' -> child: ''
       @ quoted (pretty_label_of modified_data) @ '' parent: ''
       @ quoted modified_parent_oncotree_code"

text \<open>Lines 259--281: the messages this node adds to \<open>parent_change_messages\<close>.\<close>

definition parent_change ::
  "string \<Rightarrow> row \<Rightarrow> row \<Rightarrow> (string \<times> string) list \<Rightarrow> (string \<times> string) list
    \<Rightarrow> (string \<times> string) list \<Rightarrow> error + string list" where
  "parent_change iid original_data modified_data oncotree_codes_to_internal_ids
      original_resource_uri_to_internal_ids modified_resource_uri_to_internal_ids =
     (if iid \<noteq> ''ONC000001'' then
        (case modified_parent_code iid modified_data oncotree_codes_to_internal_ids
                modified_resource_uri_to_internal_ids of
           Inl e \<Rightarrow> Inl e
         | Inr modified_parent_oncotree_code \<Rightarrow>
        (case original_parent_code iid original_data oncotree_codes_to_internal_ids
                original_resource_uri_to_internal_ids of
           Inl e \<Rightarrow> Inl e
         | Inr original_parent_oncotree_code \<Rightarrow>
             if original_parent_oncotree_code \<noteq> modified_parent_oncotree_code
             then Inr [parent_change_line original_data original_parent_oncotree_code
                         modified_data modified_parent_oncotree_code]
             else Inr []))
      else Inr [])"

text \<open>Lines 242--281: the body of the loop over the retained ids; it returns the messages
  this node adds to \<open>code_change_messages\<close> and to \<open>parent_change_messages\<close>.\<close>

definition retained_node ::
  "(string \<times> row) list \<Rightarrow> (string \<times> row) list \<Rightarrow> (string \<times> string) list
    \<Rightarrow> (string \<times> string) list \<Rightarrow> (string \<times> string) list \<Rightarrow> string
    \<Rightarrow> error + (string list \<times> string list)" where
  "retained_node original_oncotree modified_oncotree oncotree_codes_to_internal_ids
      original_resource_uri_to_internal_ids modified_resource_uri_to_internal_ids iid =
     (case dict_get original_oncotree iid of
        Inl e \<Rightarrow> Inl e
      | Inr original_data \<Rightarrow>
     (case dict_get modified_oncotree iid of
        Inl e \<Rightarrow> Inl e
      | Inr modified_data \<Rightarrow>
          if py_strip (resource_uri original_data) = []
          then Inl (ResourceUriRequired (pretty_label_of original_data))
          else if resource_uri original_data \<noteq> resource_uri modified_data
          then Inl (ResourceUriChanged (pretty_label_of modified_data))
          else
            (case parent_change iid original_data modified_data oncotree_codes_to_internal_ids
                    original_resource_uri_to_internal_ids
                    modified_resource_uri_to_internal_ids of
               Inl e \<Rightarrow> Inl e
             | Inr parent_messages \<Rightarrow>
                 Inr (if oncotree_code original_data \<noteq> oncotree_code modified_data
                      then [change_line original_data modified_data] else [],
                      parent_messages))))"

text \<open>Lines 239--281: the loop over the retained ids, in the set's iteration order.\<close>

fun retained_section ::
  "(string \<times> row) list \<Rightarrow> (string \<times> row) list \<Rightarrow> (string \<times> string) list
    \<Rightarrow> (string \<times> string) list \<Rightarrow> (string \<times> string) list \<Rightarrow> string list \<Rightarrow> string list
    \<Rightarrow> string list \<Rightarrow> error + (string list \<times> string list)" where
  "retained_section original_oncotree modified_oncotree oncotree_codes_to_internal_ids
      original_resource_uri_to_internal_ids modified_resource_uri_to_internal_ids
      code_change_messages parent_change_messages [] =
     Inr (code_change_messages, parent_change_messages)"
| "retained_section original_oncotree modified_oncotree oncotree_codes_to_internal_ids
      original_resource_uri_to_internal_ids modified_resource_uri_to_internal_ids
      code_change_messages parent_change_messages (iid # ids) =
     (case retained_node original_oncotree modified_oncotree oncotree_codes_to_internal_ids
             original_resource_uri_to_internal_ids modified_resource_uri_to_internal_ids iid of
        Inl e \<Rightarrow> Inl e
      | Inr (code_messages, parent_messages) \<Rightarrow>
          retained_section original_oncotree modified_oncotree oncotree_codes_to_internal_ids
            original_resource_uri_to_internal_ids modified_resource_uri_to_internal_ids
            (code_change_messages @ code_messages) (parent_change_messages @ parent_messages)
            ids)"

text \<open>What \<open>confirm_changes\<close> prints when it does not exit: the seven lists of the report,
  in the order of printing. (The line \<^verbatim>\<open>None\<close> printed for an empty list is not kept.)\<close>

record report =
  removed_lines :: "string list"
  new_lines :: "string list"
  precursor_lines :: "string list"
  revocation_lines :: "string list"
  id_change_lines :: "((string \<times> string) \<times> string) list"
  code_change_messages :: "string list"
  parent_change_messages :: "string list"

text \<open>
  \<open>confirm_changes\<close> (lines 128--300). \<open>enum\<close> and \<open>enum_pairs\<close> are the iteration
  orders of the sets the function loops over without sorting; \<open>confirmed\<close> is what the
  interactive \<open>confirm_change\<close> returns.
\<close>

definition confirm_changes ::
  "(string set \<Rightarrow> string list) \<Rightarrow> ((string \<times> string) set \<Rightarrow> (string \<times> string) list) \<Rightarrow> bool
    \<Rightarrow> (string \<times> row) list \<Rightarrow> (string \<times> row) list
    \<Rightarrow> (string \<times> string set) list \<Rightarrow> (string \<times> string set) list
    \<Rightarrow> (string \<times> string) list \<Rightarrow> (string \<times> string) list
    \<Rightarrow> (string \<rightharpoonup> string) \<Rightarrow> (string \<times> string) list \<Rightarrow> error + report" where
  "confirm_changes enum enum_pairs confirmed original_oncotree modified_oncotree
      precursor_id_to_internal_ids revocation_id_to_internal_ids
      original_resource_uri_to_internal_ids modified_resource_uri_to_internal_ids
      internal_id_to_oncocodes oncotree_codes_to_internal_ids =
     (let original_internal_id_set = set (dict_keys original_oncotree);
          modified_internal_id_set = set (dict_keys modified_oncotree);
          removed_internal_ids = original_internal_id_set - modified_internal_id_set;
          new_internal_ids = modified_internal_id_set - original_internal_id_set;
          in_both_internal_ids = original_internal_id_set \<inter> modified_internal_id_set
      in
        case removed_section original_oncotree (sorted_list_of_set removed_internal_ids) of
          Inl e \<Rightarrow> Inl e
        | Inr removed' \<Rightarrow>
       (case new_section modified_oncotree oncotree_codes_to_internal_ids
               modified_resource_uri_to_internal_ids (sorted_list_of_set new_internal_ids) of
          Inl e \<Rightarrow> Inl e
        | Inr new' \<Rightarrow>
       (case lineage_section enum modified_oncotree precursor_id_to_internal_ids
               revocation_id_to_internal_ids internal_id_to_oncocodes modified_internal_id_set
               new_internal_ids of
          Inl e \<Rightarrow> Inl e
        | Inr (precursors', revocations') \<Rightarrow>
       (case id_change_section original_oncotree modified_oncotree
               (enum_pairs (removed_internal_ids \<times> new_internal_ids)) of
          Inl e \<Rightarrow> Inl e
        | Inr id_changes' \<Rightarrow>
       (case retained_section original_oncotree modified_oncotree oncotree_codes_to_internal_ids
               original_resource_uri_to_internal_ids modified_resource_uri_to_internal_ids
               [] [] (enum in_both_internal_ids) of
          Inl e \<Rightarrow> Inl e
        | Inr (code_changes', parent_changes') \<Rightarrow>
            if \<not> confirmed then Inl ChangesNotConfirmed
            else Inr \<lparr>removed_lines = removed', new_lines = new',
                      precursor_lines = precursors', revocation_lines = revocations',
                      id_change_lines = id_changes', code_change_messages = code_changes',
                      parent_change_messages = parent_changes'\<rparr>)))))"

text \<open>
  \<open>main\<close> (lines 442--464), from the two files already read. The table fetched by
  \<open>get_internal_id_to_oncocodes\<close> is the parameter \<open>internal_id_to_oncocodes\<close>;
  argument parsing and the unimplemented \<open>output_rdf_file\<close> are left out.
\<close>

definition main ::
  "(string set \<Rightarrow> string list) \<Rightarrow> ((string \<times> string) set \<Rightarrow> (string \<times> string) list) \<Rightarrow> bool
    \<Rightarrow> (string \<rightharpoonup> string) \<Rightarrow> csv_file \<Rightarrow> csv_file \<Rightarrow> error + report" where
  "main enum enum_pairs confirmed internal_id_to_oncocodes original_file modified_file =
     (case validate_csv_file original_file EXPECTED_HEADER of
        Inl e \<Rightarrow> Inl e
      | Inr _ \<Rightarrow>
     (case validate_csv_file modified_file EXPECTED_HEADER_MODIFIED_FILE of
        Inl e \<Rightarrow> Inl e
      | Inr _ \<Rightarrow>
          confirm_changes enum enum_pairs confirmed
            (fst (get_oncotree original_file)) (fst (get_oncotree modified_file))
            (get_all_precursors modified_file) (get_all_revocations modified_file)
            (get_resource_uri_to_internal_ids original_file)
            (get_resource_uri_to_internal_ids modified_file)
            internal_id_to_oncocodes
            (get_oncotree_codes_to_internal_ids modified_file)))"

subsection \<open>Classes of failure\<close>

text \<open>The failures that are about a node's own resource URI (lines 171, 249 and 253).\<close>

fun resource_uri_failure :: "error \<Rightarrow> bool" where
  "resource_uri_failure (NewNodeHasResourceUri _) = True"
| "resource_uri_failure (ResourceUriRequired _) = True"
| "resource_uri_failure (ResourceUriChanged _) = True"
| "resource_uri_failure _ = False"

text \<open>The failure raised after the whole file was scanned, with the accumulated lists.\<close>

fun accumulated_failure :: "error \<Rightarrow> bool" where
  "accumulated_failure (InvalidSnapshot _ _) = True"
| "accumulated_failure _ = False"

text \<open>The two tables keyed by resource URI have the same keys (lines 355--356 assign to
  both); then the subscript of line 332 cannot raise.\<close>

definition tables_agree :: "tables \<Rightarrow> bool" where
  "tables_agree t =
     (\<forall>k. child_to_parent_resource_uris t k \<noteq> None \<longrightarrow> child_uri_to_child_label t k \<noteq> None)"


text \<open>What the index builders establish: every value of an index is a finite set of
  internal ids of rows of the file.\<close>

definition index_within :: "(string \<times> string set) list \<Rightarrow> string set \<Rightarrow> bool" where
  "index_within d A = (\<forall>k. index_get d k \<subseteq> A \<and> finite (index_get d k))"

subsection \<open>Example snapshots\<close>

definition node ::
  "string \<Rightarrow> string \<Rightarrow> string \<Rightarrow> string \<Rightarrow> string \<Rightarrow> string \<Rightarrow> string option \<Rightarrow> row" where
  "node iid code lbl uri parent_uri parent_lbl parent_code =
     \<lparr>resource_uri = uri, label = lbl,
      scheme_uri = ''http://data.mskcc.org/ontologies/oncotree'', status = ''Published'',
      internal_id = iid, color = ''Gray'', main_type = ''Cancer'', oncotree_code = code,
      precursors = [], preferred_label = lbl, revocations = [],
      parent_resource_uri = parent_uri, parent_label = parent_lbl,
      parent_oncotree_code = parent_code, other_columns = []\<rparr>"

definition tissue :: "string option \<Rightarrow> row" where
  "tissue parent_code =
     (node ''ONC000001'' ''TISSUE'' ''Tissue'' ''http://oncotree/U1'' [] [] parent_code)
       \<lparr>color := [], main_type := []\<rparr>"

definition lung :: "string option \<Rightarrow> row" where
  "lung parent_code =
     node ''ONC000002'' ''LUNG'' ''Lung'' ''http://oncotree/U2'' ''http://oncotree/U1''
       ''Tissue'' parent_code"

definition brain :: "string option \<Rightarrow> row" where
  "brain parent_code =
     node ''ONC000003'' ''BRAIN'' ''Brain'' ''http://oncotree/U3'' ''http://oncotree/U1''
       ''Tissue'' parent_code"

text \<open>A node whose declared parent is carried by no row of the files it is used in.\<close>

definition orphan :: row where
  "orphan =
     node ''ONC000004'' ''SKIN'' ''Skin'' ''http://oncotree/U4'' ''http://oncotree/U9''
       ''Ghost'' None"

text \<open>A root row with a parent label, a root row with no resource URI, and a row that
  repeats the internal id of \<open>lung\<close>.\<close>

definition tissue_with_parent :: row where
  "tissue_with_parent = (tissue None)\<lparr>parent_label := ''Body''\<rparr>"

definition tissue_without_uri :: row where
  "tissue_without_uri = (tissue None)\<lparr>resource_uri := []\<rparr>"

definition second_lung :: row where
  "second_lung = (brain None)\<lparr>internal_id := ''ONC000002''\<rparr>"

text \<open>A node whose resource URI is one space, and a root row under another internal id.\<close>

definition blank_lung :: "string option \<Rightarrow> row" where
  "blank_lung parent_code = (lung parent_code)\<lparr>resource_uri := '' ''\<rparr>"

definition other_tissue :: "string option \<Rightarrow> row" where
  "other_tissue parent_code = (tissue parent_code)\<lparr>internal_id := ''ONC000100''\<rparr>"

text \<open>A node that has no resource URI yet, and the same node under a new internal id.\<close>

definition unassigned_lung :: "string option \<Rightarrow> row" where
  "unassigned_lung parent_code = (lung parent_code)\<lparr>resource_uri := []\<rparr>"


text \<open>A node that names two precursors, and a node that revokes another id.\<close>

definition merged_lung :: "string option \<Rightarrow> row" where
  "merged_lung parent_code = (lung parent_code)\<lparr>precursors := ''ONC000007 ONC000008''\<rparr>"

definition revoking_lung :: "string option \<Rightarrow> row" where
  "revoking_lung parent_code = (unassigned_lung parent_code)\<lparr>revocations := ''ONC000007''\<rparr>"

definition original_file :: "row list \<Rightarrow> csv_file" where
  "original_file rs = \<lparr>fieldnames = EXPECTED_HEADER, rows = rs\<rparr>"

definition modified_file :: "row list \<Rightarrow> csv_file" where
  "modified_file rs = \<lparr>fieldnames = EXPECTED_HEADER_MODIFIED_FILE, rows = rs\<rparr>"

section \<open>Evaluation rules\<close>

lemmas column_defs =
  LABEL_def RESOURCE_URI_def ONCOTREE_CODE_def SCHEME_URI_def STATUS_def INTERNAL_ID_def
  COLOR_def MAIN_TYPE_def PRECURSORS_def PREFERRED_LABEL_def REVOCATIONS_def
  PARENT_RESOURCE_URI_def PARENT_LABEL_def PARENT_ONCOTREE_CODE_def

lemma row_get_simps:
  "row_get r RESOURCE_URI = Some (resource_uri r)"
  "row_get r LABEL = Some (label r)"
  "row_get r SCHEME_URI = Some (scheme_uri r)"
  "row_get r STATUS = Some (status r)"
  "row_get r INTERNAL_ID = Some (internal_id r)"
  "row_get r COLOR = Some (color r)"
  "row_get r MAIN_TYPE = Some (main_type r)"
  "row_get r ONCOTREE_CODE = Some (oncotree_code r)"
  "row_get r PRECURSORS = Some (precursors r)"
  "row_get r PREFERRED_LABEL = Some (preferred_label r)"
  "row_get r REVOCATIONS = Some (revocations r)"
  "row_get r PARENT_RESOURCE_URI = Some (parent_resource_uri r)"
  "row_get r PARENT_LABEL = Some (parent_label r)"
  "row_get r PARENT_ONCOTREE_CODE = parent_oncotree_code r"
  by (simp_all add: row_get_def column_defs)

lemma check_required_fields_tissue:
  "check_required_fields r TISSUE_NODE_REQUIRED_FIELDS = Inr () \<longleftrightarrow>
     resource_uri r \<noteq> [] \<and> label r \<noteq> [] \<and> scheme_uri r \<noteq> [] \<and> status r \<noteq> []
     \<and> internal_id r \<noteq> [] \<and> oncotree_code r \<noteq> [] \<and> preferred_label r \<noteq> []"
  by (simp add: TISSUE_NODE_REQUIRED_FIELDS_def row_get_simps field_is_required_def)

lemma check_required_fields_not_accumulated:
  "check_required_fields r fs = Inl e \<Longrightarrow> \<not> accumulated_failure e"
  by (induction fs) (auto simp: field_is_required_def split: option.splits if_splits sum.splits)

lemma first_pass_row_not_accumulated:
  "first_pass_row t r = Inl e \<Longrightarrow> \<not> accumulated_failure e"
  by (auto simp: first_pass_row_def Let_def field_is_unique_def split: sum.splits if_splits
        dest: check_required_fields_not_accumulated)


section \<open>Parent resolution\<close>

text \<open>
  Claim C10. Parent resolution has a strict precedence. A non-empty parent oncotree code is
  resolved through the code-to-id map only, and a code missing from that map is fatal. With
  the code empty (or not given) and the parent resource URI empty as well, resolution is fatal
  with the error that names the child. Otherwise the parent id is what the uri-to-id map holds
  for the parent resource URI (the lookup of a URI that is not a key raises).
\<close>

theorem get_parent_internal_id_precedence:
  "(pc \<noteq> [] \<longrightarrow>
      get_parent_internal_id child uri (Some pc) codes uris =
        (case map_of codes pc of Some i \<Rightarrow> Inr i | None \<Rightarrow> Inl (ParentCodeNotFound pc)))
   \<and> (pco \<in> {None, Some []} \<and> uri = [] \<longrightarrow>
      get_parent_internal_id child uri pco codes uris = Inl (ParentReferenceMissing child))
   \<and> (pco \<in> {None, Some []} \<and> uri \<noteq> [] \<longrightarrow>
      get_parent_internal_id child uri pco codes uris =
        (case map_of uris uri of Some i \<Rightarrow> Inr i | None \<Rightarrow> Inl (KeyError uri)))"
  by (cases pc) (auto simp: get_parent_internal_id_def dict_get_def)

theorem get_parent_internal_id_precedence_witness:
  "get_parent_internal_id ''ONC000005'' ''http://data.mskcc.org/ontologies/oncotree/U2''
      (Some ''LUNG'') [(''LUNG'', ''ONC000002''), (''BRAIN'', ''ONC000003'')]
      [(''http://data.mskcc.org/ontologies/oncotree/U2'', ''ONC000003'')] = Inr ''ONC000002''
   \<and> get_parent_internal_id ''ONC000005'' ''http://data.mskcc.org/ontologies/oncotree/U2''
      (Some ''SKIN'') [(''LUNG'', ''ONC000002''), (''BRAIN'', ''ONC000003'')]
      [(''http://data.mskcc.org/ontologies/oncotree/U2'', ''ONC000003'')]
        = Inl (ParentCodeNotFound ''SKIN'')
   \<and> get_parent_internal_id ''ONC000005'' [] (Some []) [(''LUNG'', ''ONC000002'')] []
        = Inl (ParentReferenceMissing ''ONC000005'')
   \<and> get_parent_internal_id ''ONC000005'' ''http://data.mskcc.org/ontologies/oncotree/U2''
      None [(''LUNG'', ''ONC000002''), (''BRAIN'', ''ONC000003'')]
      [(''http://data.mskcc.org/ontologies/oncotree/U2'', ''ONC000003'')] = Inr ''ONC000003''"
  using
    get_parent_internal_id_precedence
      [of "''LUNG''" "''ONC000005''" "''http://data.mskcc.org/ontologies/oncotree/U2''"
          "[(''LUNG'', ''ONC000002''), (''BRAIN'', ''ONC000003'')]"
          "[(''http://data.mskcc.org/ontologies/oncotree/U2'', ''ONC000003'')]" None]
    get_parent_internal_id_precedence
      [of "''SKIN''" "''ONC000005''" "''http://data.mskcc.org/ontologies/oncotree/U2''"
          "[(''LUNG'', ''ONC000002''), (''BRAIN'', ''ONC000003'')]"
          "[(''http://data.mskcc.org/ontologies/oncotree/U2'', ''ONC000003'')]" None]
    get_parent_internal_id_precedence
      [of "''LUNG''" "''ONC000005''" "[]" "[(''LUNG'', ''ONC000002'')]" "[]" "Some []"]
  by simp

section \<open>Validation of one snapshot\<close>

text \<open>
  Claim C1. Every non-root row of a snapshot that passes validation has its declared parent
  pair (parent resource URI, parent label) carried as (resource URI, label) by some row of the
  file, the rows that do not are collected over the whole file, and validation fails when a
  collected list is not empty. The code decides otherwise: in the file below the row
  \<open>orphan\<close> names a parent pair that no row carries, and validation succeeds.
\<close>

theorem validate_csv_file_accepts_unresolved_parent:
  "validate_csv_file (original_file [tissue None, lung None, orphan]) EXPECTED_HEADER = Inr ()
   \<and> oncotree_code orphan \<noteq> ''TISSUE''
   \<and> (parent_resource_uri orphan, parent_label orphan)
       \<notin> set (map (\<lambda>r. (resource_uri r, label r)) [tissue None, lung None, orphan])"
  by code_simp

text \<open>In particular the accumulated failure that would name \<open>orphan\<close> is not raised.\<close>

theorem validate_csv_file_accepts_unresolved_parent_witness:
  "validate_csv_file (original_file [tissue None, lung None, orphan]) EXPECTED_HEADER
     \<noteq> Inl (InvalidSnapshot [] [parent_invalid_message orphan])"
  using validate_csv_file_accepts_unresolved_parent by simp

lemma first_pass_not_accumulated:
  "first_pass t xs = Inl e \<Longrightarrow> \<not> accumulated_failure e"
  by (induction xs arbitrary: t)
     (auto split: sum.splits dest: first_pass_row_not_accumulated)

lemma first_pass_append:
  "first_pass t (xs @ ys) =
     (case first_pass t xs of Inl e \<Rightarrow> Inl e | Inr t' \<Rightarrow> first_pass t' ys)"
  by (induction xs arbitrary: t) (auto split: sum.splits)

lemma first_pass_row_sets:
  assumes "first_pass_row t r = Inr t'"
  shows "resource_uri_set t' = insert (resource_uri r) (resource_uri_set t)"
    and "internal_id_set t' = insert (internal_id r) (internal_id_set t)"
    and "oncotree_code_set t' = insert (oncotree_code r) (oncotree_code_set t)"
    and "child_to_parent_resource_uris t' =
           (child_to_parent_resource_uris t)(resource_uri r \<mapsto> parent_resource_uri r)"
    and "child_uri_to_child_label t' = (child_uri_to_child_label t)(resource_uri r \<mapsto> label r)"
  using assms by (auto simp: first_pass_row_def Let_def split: sum.splits)

lemma first_pass_sets:
  "first_pass t xs = Inr t' \<Longrightarrow>
     resource_uri_set t' = resource_uri_set t \<union> resource_uri ` set xs
     \<and> internal_id_set t' = internal_id_set t \<union> internal_id ` set xs
     \<and> oncotree_code_set t' = oncotree_code_set t \<union> oncotree_code ` set xs"
proof (induction xs arbitrary: t)
  case Nil
  then show ?case by simp
next
  case (Cons r xs)
  then obtain t1 where r: "first_pass_row t r = Inr t1" and rest: "first_pass t1 xs = Inr t'"
    by (auto split: sum.splits)
  show ?case using Cons.IH [OF rest] first_pass_row_sets(1-3) [OF r] by auto
qed

lemma first_pass_tables_agree:
  "first_pass t xs = Inr t' \<Longrightarrow> tables_agree t \<Longrightarrow> tables_agree t'"
proof (induction xs arbitrary: t)
  case Nil
  then show ?case by simp
next
  case (Cons r xs)
  then obtain t1 where r: "first_pass_row t r = Inr t1" and rest: "first_pass t1 xs = Inr t'"
    by (auto split: sum.splits)
  have "tables_agree t1"
    using Cons.prems(2) first_pass_row_sets(4,5) [OF r] by (simp add: tables_agree_def)
  then show ?case using Cons.IH [OF rest] by simp
qed

lemma parent_check_total:
  assumes "tables_agree t"
  shows "\<exists>b. parent_resource_uri_and_label_are_valid u l (child_to_parent_resource_uris t)
              (child_uri_to_child_label t) (child_to_parent_labels t) = Inr b"
proof (cases "child_to_parent_resource_uris t l")
  case None
  then show ?thesis by (auto simp: parent_resource_uri_and_label_are_valid_def)
next
  case (Some a)
  with assms obtain v where "child_uri_to_child_label t l = Some v"
    by (auto simp: tables_agree_def)
  then show ?thesis by (auto simp: parent_resource_uri_and_label_are_valid_def)
qed

lemma second_pass_tissue_with_parent:
  assumes "tables_agree t"
    and "r \<in> set rs" and "oncotree_code r = ''TISSUE''" and "tissue_has_parent_field r"
  shows "second_pass t lm pi rs = Inl TissueHasParent"
  using assms(2)
proof (induction rs arbitrary: lm pi)
  case Nil
  then show ?case by simp
next
  case (Cons x rs)
  show ?case
  proof (cases "oncotree_code x = ''TISSUE''")
    case True
    show ?thesis
    proof (cases "tissue_has_parent_field x")
      case True
      with \<open>oncotree_code x = ''TISSUE''\<close> show ?thesis by (simp add: Let_def)
    next
      case False
      with assms(4) Cons.prems have "r \<in> set rs" by auto
      with Cons.IH False \<open>oncotree_code x = ''TISSUE''\<close> show ?thesis by (simp add: Let_def)
    qed
  next
    case False
    with Cons.prems assms(3) have "r \<in> set rs" by auto
    moreover obtain b where "parent_resource_uri_and_label_are_valid (parent_resource_uri x) (parent_label x)
                   (child_to_parent_resource_uris t) (child_uri_to_child_label t)
                   (child_to_parent_labels t) = Inr b"
      using parent_check_total [OF assms(1)] by blast
    ultimately show ?thesis using False Cons.IH by (cases b) (simp_all add: Let_def)
  qed
qed

lemma empty_tables_agree: "tables_agree empty_tables"
  by (simp add: empty_tables_def tables_agree_def)


lemma first_pass_row_unique_checks:
  assumes "check_required_fields r (required_fields_of r) = Inr ()"
  shows "resource_uri r \<noteq> [] \<and> resource_uri r \<in> resource_uri_set t \<Longrightarrow>
           first_pass_row t r = Inl (FieldNotUnique RESOURCE_URI (resource_uri r))"
    and "\<not> (resource_uri r \<noteq> [] \<and> resource_uri r \<in> resource_uri_set t) \<Longrightarrow>
         internal_id r \<noteq> [] \<and> internal_id r \<in> internal_id_set t \<Longrightarrow>
           first_pass_row t r = Inl (FieldNotUnique INTERNAL_ID (internal_id r))"
    and "\<not> (resource_uri r \<noteq> [] \<and> resource_uri r \<in> resource_uri_set t) \<Longrightarrow>
         \<not> (internal_id r \<noteq> [] \<and> internal_id r \<in> internal_id_set t) \<Longrightarrow>
         oncotree_code r \<noteq> [] \<and> oncotree_code r \<in> oncotree_code_set t \<Longrightarrow>
           first_pass_row t r = Inl (FieldNotUnique ONCOTREE_CODE (oncotree_code r))"
    and "\<not> (resource_uri r \<noteq> [] \<and> resource_uri r \<in> resource_uri_set t) \<Longrightarrow>
         \<not> (internal_id r \<noteq> [] \<and> internal_id r \<in> internal_id_set t) \<Longrightarrow>
         \<not> (oncotree_code r \<noteq> [] \<and> oncotree_code r \<in> oncotree_code_set t) \<Longrightarrow>
           \<exists>t'. first_pass_row t r = Inr t'"
  using assms by (auto simp: first_pass_row_def Let_def field_is_unique_def)

lemma first_pass_row_repeat_fails:
  assumes "(resource_uri r \<noteq> [] \<and> resource_uri r \<in> resource_uri_set t)
         \<or> (internal_id r \<noteq> [] \<and> internal_id r \<in> internal_id_set t)
         \<or> (oncotree_code r \<noteq> [] \<and> oncotree_code r \<in> oncotree_code_set t)"
  shows "\<exists>e. first_pass_row t r = Inl e"
proof (cases "check_required_fields r (required_fields_of r)")
  case (Inl e)
  then show ?thesis by (simp add: first_pass_row_def Let_def)
next
  case (Inr u)
  then have "check_required_fields r (required_fields_of r) = Inr ()" by simp
  from first_pass_row_unique_checks(1-3) [OF this, of t] assms show ?thesis by blast
qed

lemma first_pass_from_empty_sets:
  assumes "first_pass empty_tables pre = Inr t"
  shows "resource_uri_set t = resource_uri ` set pre"
    and "internal_id_set t = internal_id ` set pre"
    and "oncotree_code_set t = oncotree_code ` set pre"
  using first_pass_sets [OF assms] by (simp_all add: empty_tables_def)

text \<open>
  Claim C8. In the first loop each of resource URI, internal id and oncotree code is checked
  on its own against the values of the rows before: a row that repeats a value that is not
  empty ends validation at once, with a failure that is not the accumulated one, whatever rows
  follow; when the rows before passed the loop and the row has its required fields, the failure
  is the duplicate of the first of the three fields that repeats. A row whose key fields are
  each empty or new passes the loop, so an empty value is never a duplicate.
\<close>

theorem duplicate_key_field_is_fatal_at_once:
  assumes "set expected_header \<subseteq> set (fieldnames f)"
    and "rows f = pre @ r # post"
    and "first_pass empty_tables pre = Inr t"
  shows "((resource_uri r \<noteq> [] \<and> resource_uri r \<in> resource_uri ` set pre)
          \<or> (internal_id r \<noteq> [] \<and> internal_id r \<in> internal_id ` set pre)
          \<or> (oncotree_code r \<noteq> [] \<and> oncotree_code r \<in> oncotree_code ` set pre)
         \<longrightarrow> (\<exists>e. validate_csv_file f expected_header = Inl e \<and> \<not> accumulated_failure e))
       \<and> (check_required_fields r (required_fields_of r) = Inr () \<longrightarrow>
           (resource_uri r \<noteq> [] \<and> resource_uri r \<in> resource_uri ` set pre
              \<longrightarrow> validate_csv_file f expected_header
                    = Inl (FieldNotUnique RESOURCE_URI (resource_uri r)))
         \<and> (\<not> (resource_uri r \<noteq> [] \<and> resource_uri r \<in> resource_uri ` set pre)
            \<and> internal_id r \<noteq> [] \<and> internal_id r \<in> internal_id ` set pre
              \<longrightarrow> validate_csv_file f expected_header
                    = Inl (FieldNotUnique INTERNAL_ID (internal_id r)))
         \<and> (\<not> (resource_uri r \<noteq> [] \<and> resource_uri r \<in> resource_uri ` set pre)
            \<and> \<not> (internal_id r \<noteq> [] \<and> internal_id r \<in> internal_id ` set pre)
            \<and> oncotree_code r \<noteq> [] \<and> oncotree_code r \<in> oncotree_code ` set pre
              \<longrightarrow> validate_csv_file f expected_header
                    = Inl (FieldNotUnique ONCOTREE_CODE (oncotree_code r)))
         \<and> (\<not> (resource_uri r \<noteq> [] \<and> resource_uri r \<in> resource_uri ` set pre)
            \<and> \<not> (internal_id r \<noteq> [] \<and> internal_id r \<in> internal_id ` set pre)
            \<and> \<not> (oncotree_code r \<noteq> [] \<and> oncotree_code r \<in> oncotree_code ` set pre)
              \<longrightarrow> (\<exists>t'. first_pass empty_tables (pre @ [r]) = Inr t')))"
proof -
  note sets = first_pass_from_empty_sets [OF assms(3)]
  have hdr: "set expected_header - set (fieldnames f) = {}" using assms(1) by auto
  have fail: "validate_csv_file f expected_header = Inl e" if "first_pass_row t r = Inl e" for e
    using that hdr assms(2,3) by (simp add: validate_csv_file_def first_pass_append)
  have one: "first_pass empty_tables (pre @ [r]) = first_pass_row t r"
    using assms(3) by (simp add: first_pass_append split: sum.splits)
  have general: "\<exists>e. validate_csv_file f expected_header = Inl e \<and> \<not> accumulated_failure e"
    if "(resource_uri r \<noteq> [] \<and> resource_uri r \<in> resource_uri ` set pre)
          \<or> (internal_id r \<noteq> [] \<and> internal_id r \<in> internal_id ` set pre)
          \<or> (oncotree_code r \<noteq> [] \<and> oncotree_code r \<in> oncotree_code ` set pre)"
  proof -
    from that obtain e where e: "first_pass_row t r = Inl e"
      using first_pass_row_repeat_fails [of r t] sets by auto
    with fail first_pass_row_not_accumulated show ?thesis by blast
  qed
  have specific: ?thesis if req: "check_required_fields r (required_fields_of r) = Inr ()"
    using general req first_pass_row_unique_checks [OF req, of t] fail one
    unfolding sets by auto
  show ?thesis
  proof (cases "check_required_fields r (required_fields_of r) = Inr ()")
    case True
    then show ?thesis by (rule specific)
  next
    case False
    with general show ?thesis by blast
  qed
qed


theorem duplicate_key_field_is_fatal_at_once_witness:
  "validate_csv_file (original_file [tissue None, lung None, second_lung]) EXPECTED_HEADER
     = Inl (FieldNotUnique INTERNAL_ID ''ONC000002'')"
proof -
  let ?f = "original_file [tissue None, lung None, second_lung]"
  have h1: "set EXPECTED_HEADER \<subseteq> set (fieldnames ?f)"
    by (simp add: original_file_def)
  have h2: "rows ?f = [tissue None, lung None] @ second_lung # []"
    by (simp add: original_file_def)
  have "case first_pass empty_tables [tissue None, lung None] of
          Inl _ \<Rightarrow> False | Inr _ \<Rightarrow> True"
    by code_simp
  then obtain t where h3: "first_pass empty_tables [tissue None, lung None] = Inr t"
    by (cases "first_pass empty_tables [tissue None, lung None]") auto
  have h4: "check_required_fields second_lung (required_fields_of second_lung) = Inr ()"
    by code_simp
  have h5: "\<not> (resource_uri second_lung \<noteq> []
               \<and> resource_uri second_lung \<in> resource_uri ` set [tissue None, lung None])
            \<and> internal_id second_lung \<noteq> []
            \<and> internal_id second_lung \<in> internal_id ` set [tissue None, lung None]"
    by (simp add: second_lung_def tissue_def lung_def brain_def node_def)
  have h6: "internal_id second_lung = ''ONC000002''"
    by (simp add: second_lung_def)
  from duplicate_key_field_is_fatal_at_once [OF h1 h2 h3] h4 h5 h6 show ?thesis
    by simp
qed

lemma tissue_row_validation:
  assumes "set expected_header \<subseteq> set (fieldnames f)" and "oncotree_code r = ''TISSUE''"
  shows "(r \<in> set (rows f)
          \<and> (parent_resource_uri r \<noteq> [] \<or> parent_label r \<noteq> []
               \<or> (\<exists>c. parent_oncotree_code r = Some c \<and> c \<noteq> []))
         \<longrightarrow> (\<exists>e. validate_csv_file f expected_header = Inl e \<and> \<not> accumulated_failure e)
           \<and> (\<forall>t. first_pass empty_tables (rows f) = Inr t
                 \<longrightarrow> validate_csv_file f expected_header = Inl TissueHasParent))
       \<and> (rows f = [r]
          \<and> parent_resource_uri r = [] \<and> parent_label r = [] \<and> parent_oncotree_code r \<in> {None, Some []}
          \<and> label r = preferred_label r
          \<and> (\<forall>c \<in> set TISSUE_NODE_REQUIRED_FIELDS. row_get r c \<noteq> Some [])
         \<longrightarrow> validate_csv_file f expected_header = Inr ())"
proof (intro conjI impI)
  assume a: "r \<in> set (rows f)
          \<and> (parent_resource_uri r \<noteq> [] \<or> parent_label r \<noteq> []
               \<or> (\<exists>c. parent_oncotree_code r = Some c \<and> c \<noteq> []))"
  then have hp: "tissue_has_parent_field r"
    by (auto simp: tissue_has_parent_field_def)
  have hdr: "set expected_header - set (fieldnames f) = {}" using assms(1) by auto
  have sharp: "validate_csv_file f expected_header = Inl TissueHasParent"
    if "first_pass empty_tables (rows f) = Inr t" for t
  proof -
    have "tables_agree t"
      using first_pass_tables_agree [OF that empty_tables_agree] .
    then have "second_pass t [] [] (rows f) = Inl TissueHasParent"
      using second_pass_tissue_with_parent a assms(2) hp by blast
    then show ?thesis using that hdr by (simp add: validate_csv_file_def)
  qed
  then show "\<forall>t. first_pass empty_tables (rows f) = Inr t
                 \<longrightarrow> validate_csv_file f expected_header = Inl TissueHasParent" by blast
  show "\<exists>e. validate_csv_file f expected_header = Inl e \<and> \<not> accumulated_failure e"
  proof (cases "first_pass empty_tables (rows f)")
    case (Inl e)
    then have "validate_csv_file f expected_header = Inl e" using hdr by (simp add: validate_csv_file_def)
    with first_pass_not_accumulated [OF Inl] show ?thesis by blast
  next
    case (Inr t)
    with sharp show ?thesis by auto
  qed
next
  assume a: "rows f = [r]
          \<and> parent_resource_uri r = [] \<and> parent_label r = [] \<and> parent_oncotree_code r \<in> {None, Some []}
          \<and> label r = preferred_label r
          \<and> (\<forall>c \<in> set TISSUE_NODE_REQUIRED_FIELDS. row_get r c \<noteq> Some [])"
  have hdr: "set expected_header - set (fieldnames f) = {}" using assms(1) by auto
  from a have "\<forall>c \<in> set TISSUE_NODE_REQUIRED_FIELDS. row_get r c \<noteq> Some []" by blast
  then have "resource_uri r \<noteq> [] \<and> label r \<noteq> [] \<and> scheme_uri r \<noteq> [] \<and> status r \<noteq> []
     \<and> internal_id r \<noteq> [] \<and> oncotree_code r \<noteq> [] \<and> preferred_label r \<noteq> []"
    by (simp add: TISSUE_NODE_REQUIRED_FIELDS_def row_get_simps)
  then have "check_required_fields r TISSUE_NODE_REQUIRED_FIELDS = Inr ()"
    by (simp add: check_required_fields_tissue)
  then have req: "check_required_fields r (required_fields_of r) = Inr ()"
    using assms(2) by (simp add: required_fields_of_def)
  have ntp: "\<not> tissue_has_parent_field r" using a by (auto simp: tissue_has_parent_field_def)
  have fp: "first_pass_row empty_tables r = Inr
     (empty_tables\<lparr>child_to_parent_resource_uris := [resource_uri r \<mapsto> parent_resource_uri r],
         child_uri_to_child_label := [resource_uri r \<mapsto> label r],
         child_to_parent_labels := [label r \<mapsto> parent_label r],
         resource_uri_set := {resource_uri r}, internal_id_set := {internal_id r},
         oncotree_code_set := {oncotree_code r}\<rparr>)"
    using req by (simp add: first_pass_row_def Let_def empty_tables_def field_is_unique_def)
  show "validate_csv_file f expected_header = Inr ()"
    using a hdr fp ntp assms(2)
    by (simp add: validate_csv_file_def Let_def)
qed



lemma tissue_required_fields_iff:
  "(\<forall>c \<in> set TISSUE_NODE_REQUIRED_FIELDS. row_get r c \<noteq> Some []) \<longleftrightarrow>
     resource_uri r \<noteq> [] \<and> label r \<noteq> [] \<and> scheme_uri r \<noteq> [] \<and> status r \<noteq> []
     \<and> internal_id r \<noteq> [] \<and> oncotree_code r \<noteq> [] \<and> preferred_label r \<noteq> []"
  by (simp add: TISSUE_NODE_REQUIRED_FIELDS_def row_get_simps)

lemma row_get_expected: "c \<in> set EXPECTED_HEADER \<Longrightarrow> \<exists>v. row_get r c = Some v"
  by (auto simp: EXPECTED_HEADER_def row_get_simps)

lemma check_required_fields_failure:
  "set fs \<subseteq> set EXPECTED_HEADER \<Longrightarrow> check_required_fields r fs = Inl e \<Longrightarrow>
     \<exists>c \<in> set fs. row_get r c = Some [] \<and> e = RequiredFieldEmpty c (internal_id r)"
proof (induction fs)
  case Nil
  then show ?case by simp
next
  case (Cons c fs)
  from Cons.prems(1) obtain v where v: "row_get r c = Some v"
    using row_get_expected [of c r] by auto
  show ?case
  proof (cases "v = []")
    case True
    with v Cons.prems(2) show ?thesis by (simp add: field_is_required_def)
  next
    case False
    with v Cons.prems(2) have "check_required_fields r fs = Inl e"
      by (simp add: field_is_required_def)
    with Cons.IH Cons.prems(1) show ?thesis by auto
  qed
qed

lemma tissue_first_pass_row_iff:
  assumes "oncotree_code r = ''TISSUE''"
  shows "(\<exists>t'. first_pass_row t r = Inr t') \<longleftrightarrow>
     (\<forall>c \<in> set TISSUE_NODE_REQUIRED_FIELDS. row_get r c \<noteq> Some [])
     \<and> resource_uri r \<notin> resource_uri_set t \<and> internal_id r \<notin> internal_id_set t
     \<and> oncotree_code r \<notin> oncotree_code_set t"
proof (cases "check_required_fields r TISSUE_NODE_REQUIRED_FIELDS = Inr ()")
  case True
  then have fields: "resource_uri r \<noteq> [] \<and> internal_id r \<noteq> [] \<and> oncotree_code r \<noteq> []"
    and all: "\<forall>c \<in> set TISSUE_NODE_REQUIRED_FIELDS. row_get r c \<noteq> Some []"
    by (simp_all add: check_required_fields_tissue tissue_required_fields_iff)
  from True assms have "check_required_fields r (required_fields_of r) = Inr ()"
    by (simp add: required_fields_of_def)
  then have "(\<exists>t'. first_pass_row t r = Inr t') \<longleftrightarrow>
     resource_uri r \<notin> resource_uri_set t \<and> internal_id r \<notin> internal_id_set t
     \<and> oncotree_code r \<notin> oncotree_code_set t"
    using fields by (auto simp: first_pass_row_def Let_def field_is_unique_def)
  with all show ?thesis by simp
next
  case False
  then have none: "\<not> (\<forall>c \<in> set TISSUE_NODE_REQUIRED_FIELDS. row_get r c \<noteq> Some [])"
    by (simp add: check_required_fields_tissue tissue_required_fields_iff)
  from False obtain e where "check_required_fields r TISSUE_NODE_REQUIRED_FIELDS = Inl e"
    by (cases "check_required_fields r TISSUE_NODE_REQUIRED_FIELDS") auto
  with assms have "first_pass_row t r = Inl e"
    by (simp add: first_pass_row_def Let_def required_fields_of_def)
  with none show ?thesis by simp
qed

lemma tissue_first_pass_row_missing_field:
  assumes "oncotree_code r = ''TISSUE''"
    and "\<exists>c \<in> set TISSUE_NODE_REQUIRED_FIELDS. row_get r c = Some []"
  shows "\<exists>c \<in> set TISSUE_NODE_REQUIRED_FIELDS.
           row_get r c = Some [] \<and> first_pass_row t r = Inl (RequiredFieldEmpty c (internal_id r))"
proof -
  from assms(2) have "check_required_fields r TISSUE_NODE_REQUIRED_FIELDS \<noteq> Inr ()"
    using tissue_required_fields_iff [of r] by (auto simp: check_required_fields_tissue)
  then obtain e where e: "check_required_fields r TISSUE_NODE_REQUIRED_FIELDS = Inl e"
    by (cases "check_required_fields r TISSUE_NODE_REQUIRED_FIELDS") auto
  have "set TISSUE_NODE_REQUIRED_FIELDS \<subseteq> set EXPECTED_HEADER"
    by (simp add: TISSUE_NODE_REQUIRED_FIELDS_def EXPECTED_HEADER_def)
  from check_required_fields_failure [OF this e] obtain c where
    c: "c \<in> set TISSUE_NODE_REQUIRED_FIELDS" "row_get r c = Some []"
       "e = RequiredFieldEmpty c (internal_id r)"
    by blast
  from e assms(1) have "first_pass_row t r = Inl e"
    by (simp add: first_pass_row_def Let_def required_fields_of_def)
  with c show ?thesis by blast
qed

lemma tissue_second_pass_step:
  assumes "oncotree_code r = ''TISSUE''"
    and "parent_resource_uri r = [] \<and> parent_label r = []
         \<and> parent_oncotree_code r \<in> {None, Some []}"
  shows "second_pass t lm pi (r # rs) =
           second_pass t (if label r \<noteq> preferred_label r
                          then lm @ [label_mismatch_message r] else lm) pi rs"
proof -
  from assms(2) have "\<not> tissue_has_parent_field r"
    by (auto simp: tissue_has_parent_field_def)
  with assms(1) show ?thesis by (simp add: Let_def)
qed

lemma first_pass_fails_at:
  "r \<in> set rs \<Longrightarrow> (\<And>t. \<exists>e. first_pass_row t r = Inl e) \<Longrightarrow> \<exists>e. first_pass t rs = Inl e"
proof (induction rs arbitrary: t)
  case Nil
  then show ?case by simp
next
  case (Cons x rs)
  show ?case
  proof (cases "first_pass_row t x")
    case (Inl e)
    then show ?thesis by simp
  next
    case (Inr t')
    with Cons.prems(2) [of t] have "x \<noteq> r" by auto
    with Cons.prems(1) have "r \<in> set rs" by simp
    from Cons.IH [OF this Cons.prems(2), of t'] Inr show ?thesis by simp
  qed
qed


text \<open>
  Claim C9. A root row (oncotree code \<^verbatim>\<open>TISSUE\<close>) with a parent resource URI, a parent
  label or (when the column exists) a parent oncotree code that is not empty makes validation
  fail with a failure that is not the accumulated one, and with the root's own failure once
  the first loop has passed. A file made of one root row whose parent fields are empty, whose
  two labels agree and whose fields of the reduced list \<open>TISSUE_NODE_REQUIRED_FIELDS\<close> are not
  empty passes validation. In any file and from any tables, a root row passes the first loop
  exactly when every field of the reduced list is filled and its three key values are new
  (colour, main type and the parent fields are not asked for); a root row with an empty field
  of the reduced list fails there with the required-field failure of such a field, and
  validation of a file that holds it fails with a failure that is not the accumulated one.
  In the second loop a root row whose parent fields are empty adds no parent violation and
  no failure: the loop goes on, with the label mismatch of the row if it has one.
\<close>

theorem tissue_row_parent_fields:
  assumes "set expected_header \<subseteq> set (fieldnames f)" and "oncotree_code r = ''TISSUE''"
  shows "(r \<in> set (rows f)
          \<and> (parent_resource_uri r \<noteq> [] \<or> parent_label r \<noteq> []
               \<or> (\<exists>c. parent_oncotree_code r = Some c \<and> c \<noteq> []))
         \<longrightarrow> (\<exists>e. validate_csv_file f expected_header = Inl e \<and> \<not> accumulated_failure e)
           \<and> (\<forall>t. first_pass empty_tables (rows f) = Inr t
                 \<longrightarrow> validate_csv_file f expected_header = Inl TissueHasParent))
       \<and> (rows f = [r]
          \<and> parent_resource_uri r = [] \<and> parent_label r = [] \<and> parent_oncotree_code r \<in> {None, Some []}
          \<and> label r = preferred_label r
          \<and> (\<forall>c \<in> set TISSUE_NODE_REQUIRED_FIELDS. row_get r c \<noteq> Some [])
         \<longrightarrow> validate_csv_file f expected_header = Inr ())
       \<and> (\<forall>t. (\<exists>t'. first_pass_row t r = Inr t') \<longleftrightarrow>
               (\<forall>c \<in> set TISSUE_NODE_REQUIRED_FIELDS. row_get r c \<noteq> Some [])
               \<and> resource_uri r \<notin> resource_uri_set t \<and> internal_id r \<notin> internal_id_set t
               \<and> oncotree_code r \<notin> oncotree_code_set t)
       \<and> (\<forall>t. (\<exists>c \<in> set TISSUE_NODE_REQUIRED_FIELDS. row_get r c = Some [])
               \<longrightarrow> (\<exists>c \<in> set TISSUE_NODE_REQUIRED_FIELDS. row_get r c = Some []
                     \<and> first_pass_row t r = Inl (RequiredFieldEmpty c (internal_id r))))
       \<and> (r \<in> set (rows f) \<and> (\<exists>c \<in> set TISSUE_NODE_REQUIRED_FIELDS. row_get r c = Some [])
         \<longrightarrow> (\<exists>e. validate_csv_file f expected_header = Inl e \<and> \<not> accumulated_failure e))
       \<and> (parent_resource_uri r = [] \<and> parent_label r = []
          \<and> parent_oncotree_code r \<in> {None, Some []}
         \<longrightarrow> (\<forall>t lm pi rs.
                second_pass t lm pi (r # rs) =
                  second_pass t (if label r \<noteq> preferred_label r
                                 then lm @ [label_mismatch_message r] else lm) pi rs))"
proof -
  note whole = tissue_row_validation [OF assms]
  have row: "\<forall>t. (\<exists>t'. first_pass_row t r = Inr t') \<longleftrightarrow>
               (\<forall>c \<in> set TISSUE_NODE_REQUIRED_FIELDS. row_get r c \<noteq> Some [])
               \<and> resource_uri r \<notin> resource_uri_set t \<and> internal_id r \<notin> internal_id_set t
               \<and> oncotree_code r \<notin> oncotree_code_set t"
    using tissue_first_pass_row_iff [OF assms(2)] by blast
  have missing: "\<forall>t. (\<exists>c \<in> set TISSUE_NODE_REQUIRED_FIELDS. row_get r c = Some [])
               \<longrightarrow> (\<exists>c \<in> set TISSUE_NODE_REQUIRED_FIELDS. row_get r c = Some []
                     \<and> first_pass_row t r = Inl (RequiredFieldEmpty c (internal_id r)))"
    using tissue_first_pass_row_missing_field [OF assms(2)] by blast
  have rejected: "\<exists>e. validate_csv_file f expected_header = Inl e \<and> \<not> accumulated_failure e"
    if "r \<in> set (rows f) \<and> (\<exists>c \<in> set TISSUE_NODE_REQUIRED_FIELDS. row_get r c = Some [])"
  proof -
    have "\<exists>e. first_pass_row t r = Inl e" for t
      using tissue_first_pass_row_missing_field [OF assms(2), of t] that by blast
    with that obtain e where e: "first_pass empty_tables (rows f) = Inl e"
      using first_pass_fails_at [of r "rows f" empty_tables] by blast
    have "set expected_header - set (fieldnames f) = {}" using assms(1) by auto
    with e have "validate_csv_file f expected_header = Inl e"
      by (simp add: validate_csv_file_def)
    with first_pass_not_accumulated [OF e] show ?thesis by blast
  qed
  have second: "\<forall>t lm pi rs.
                second_pass t lm pi (r # rs) =
                  second_pass t (if label r \<noteq> preferred_label r
                                 then lm @ [label_mismatch_message r] else lm) pi rs"
    if "parent_resource_uri r = [] \<and> parent_label r = []
          \<and> parent_oncotree_code r \<in> {None, Some []}"
    using tissue_second_pass_step [OF assms(2) that] by blast
  from rejected
  have rejected': "r \<in> set (rows f) \<and> (\<exists>c \<in> set TISSUE_NODE_REQUIRED_FIELDS. row_get r c = Some [])
         \<longrightarrow> (\<exists>e. validate_csv_file f expected_header = Inl e \<and> \<not> accumulated_failure e)"
    by (rule impI)
  from second
  have second': "parent_resource_uri r = [] \<and> parent_label r = []
          \<and> parent_oncotree_code r \<in> {None, Some []}
         \<longrightarrow> (\<forall>t lm pi rs.
                second_pass t lm pi (r # rs) =
                  second_pass t (if label r \<noteq> preferred_label r
                                 then lm @ [label_mismatch_message r] else lm) pi rs)"
    by (rule impI)
  show ?thesis
    using conjunct1 [OF whole] conjunct2 [OF whole] row missing rejected' second'
    by - (intro conjI; assumption)
qed

theorem tissue_row_parent_fields_witness:
  "validate_csv_file (original_file [tissue_with_parent, lung None]) EXPECTED_HEADER
     = Inl TissueHasParent
   \<and> validate_csv_file (original_file [tissue None]) EXPECTED_HEADER = Inr ()
   \<and> (\<exists>e. validate_csv_file (original_file [tissue_without_uri, lung None]) EXPECTED_HEADER
             = Inl e \<and> \<not> accumulated_failure e)"
proof -
  let ?f = "original_file [tissue_with_parent, lung None]"
  let ?g = "original_file [tissue None]"
  let ?h = "original_file [tissue_without_uri, lung None]"
  have h1: "set EXPECTED_HEADER \<subseteq> set (fieldnames ?f)"
    and g1: "set EXPECTED_HEADER \<subseteq> set (fieldnames ?g)"
    and k1: "set EXPECTED_HEADER \<subseteq> set (fieldnames ?h)"
    by (simp_all add: original_file_def)
  have h2: "oncotree_code tissue_with_parent = ''TISSUE''"
    and g2: "oncotree_code (tissue None) = ''TISSUE''"
    and k2: "oncotree_code tissue_without_uri = ''TISSUE''"
    by (simp_all add: tissue_with_parent_def tissue_without_uri_def tissue_def node_def)
  have h3: "tissue_with_parent \<in> set (rows ?f)
            \<and> (parent_resource_uri tissue_with_parent \<noteq> []
                \<or> parent_label tissue_with_parent \<noteq> []
                \<or> (\<exists>c. parent_oncotree_code tissue_with_parent = Some c \<and> c \<noteq> []))"
    by (simp add: original_file_def tissue_with_parent_def)
  have "case first_pass empty_tables (rows ?f) of Inl _ \<Rightarrow> False | Inr _ \<Rightarrow> True"
    by code_simp
  then obtain t where h4: "first_pass empty_tables (rows ?f) = Inr t"
    by (cases "first_pass empty_tables (rows ?f)") auto
  have g3: "rows ?g = [tissue None]
            \<and> parent_resource_uri (tissue None) = [] \<and> parent_label (tissue None) = []
            \<and> parent_oncotree_code (tissue None) \<in> {None, Some []}
            \<and> label (tissue None) = preferred_label (tissue None)
            \<and> (\<forall>c \<in> set TISSUE_NODE_REQUIRED_FIELDS. row_get (tissue None) c \<noteq> Some [])"
    by (simp add: original_file_def tissue_def node_def TISSUE_NODE_REQUIRED_FIELDS_def
        row_get_simps)
  have k3: "tissue_without_uri \<in> set (rows ?h)
            \<and> (\<exists>c \<in> set TISSUE_NODE_REQUIRED_FIELDS. row_get tissue_without_uri c = Some [])"
    by (simp add: original_file_def tissue_without_uri_def TISSUE_NODE_REQUIRED_FIELDS_def
        row_get_simps)
  note F = tissue_row_parent_fields [OF h1 h2]
  note G = tissue_row_parent_fields [OF g1 g2]
  note K = tissue_row_parent_fields [OF k1 k2]
  from conjunct1 [OF F] h3
  have "(\<exists>e. validate_csv_file ?f EXPECTED_HEADER = Inl e \<and> \<not> accumulated_failure e)
        \<and> (\<forall>t. first_pass empty_tables (rows ?f) = Inr t
              \<longrightarrow> validate_csv_file ?f EXPECTED_HEADER = Inl TissueHasParent)"
    by (rule mp)
  with h4 have a: "validate_csv_file ?f EXPECTED_HEADER = Inl TissueHasParent"
    by blast
  from conjunct1 [OF conjunct2 [OF G]] g3
  have b: "validate_csv_file ?g EXPECTED_HEADER = Inr ()"
    by (rule mp)
  from conjunct1 [OF conjunct2 [OF conjunct2 [OF conjunct2 [OF conjunct2 [OF K]]]]] k3
  have c: "\<exists>e. validate_csv_file ?h EXPECTED_HEADER = Inl e \<and> \<not> accumulated_failure e"
    by (rule mp)
  from a b c show ?thesis by (intro conjI)
qed

section \<open>Loading\<close>

text \<open>
  Claim C2. A row whose status is not \<^verbatim>\<open>Published\<close> is warned about and left out of the
  node map. The code prints the warning and keeps the node: the map loaded from the file below
  holds the row whose status is \<^verbatim>\<open>Draft\<close>.
\<close>

theorem get_oncotree_keeps_unpublished_node:
  "get_oncotree (original_file [tissue None, (lung None)\<lparr>status := ''Draft''\<rparr>]) =
     ([(''ONC000001'', tissue None), (''ONC000002'', (lung None)\<lparr>status := ''Draft''\<rparr>)],
      [''ONC000002: Lung (LUNG)''])"
  by code_simp

section \<open>Reconciliation\<close>

lemma dict_get_not_uri_failure: "dict_get d k = Inl e \<Longrightarrow> \<not> resource_uri_failure e"
  by (auto simp: dict_get_def split: option.splits)

lemma get_parent_internal_id_not_uri_failure:
  "get_parent_internal_id c u pc codes uris = Inl e \<Longrightarrow> \<not> resource_uri_failure e"
  by (auto simp: get_parent_internal_id_def dict_get_def split: option.splits list.splits if_splits)

lemma get_oncotree_code_from_internal_id_not_uri_failure:
  "get_oncotree_code_from_internal_id d i = Inl e \<Longrightarrow> \<not> resource_uri_failure e"
  by (induction d i rule: get_oncotree_code_from_internal_id.induct) (auto split: if_splits)

lemma removed_section_not_uri_failure:
  "removed_section O' ids = Inl e \<Longrightarrow> \<not> resource_uri_failure e"
  by (induction ids) (auto split: sum.splits dest: dict_get_not_uri_failure)

lemma new_section_uri_failure:
  "new_section M codes uris ids = Inl e \<Longrightarrow> resource_uri_failure e \<Longrightarrow>
     \<exists>i \<in> set ids. \<exists>md. map_of M i = Some md \<and> resource_uri md \<noteq> []"
proof (induction ids)
  case Nil
  then show ?case by simp
next
  case (Cons i ids)
  show ?case
  proof (cases "map_of M i")
    case None
    with Cons.prems show ?thesis by (auto simp: dict_get_def)
  next
    case (Some md)
    show ?thesis
    proof (cases "resource_uri md = []")
      case False
      with Some show ?thesis by auto
    next
      case True
      with Some Cons.prems have "new_section M codes uris ids = Inl e"
        by (auto simp: dict_get_def split: option.splits sum.splits
            dest: get_parent_internal_id_not_uri_failure)
      with Cons.IH Cons.prems(2) show ?thesis by auto
    qed
  qed
qed

lemma new_section_fails:
  "i \<in> set ids \<Longrightarrow> map_of M i = Some md \<Longrightarrow> resource_uri md \<noteq> [] \<Longrightarrow>
     \<exists>e. new_section M codes uris ids = Inl e"
proof (induction ids)
  case Nil
  then show ?case by simp
next
  case (Cons j ids)
  show ?case
  proof (cases "j = i")
    case True
    with Cons.prems show ?thesis by (simp add: dict_get_def)
  next
    case False
    with Cons obtain e where "new_section M codes uris ids = Inl e" by auto
    then show ?thesis by (auto simp: dict_get_def split: option.splits sum.splits)
  qed
qed


lemma precursor_of_lines_not_uri_failure:
  "precursor_of_lines M p c ids = Inl e \<Longrightarrow> \<not> resource_uri_failure e"
  by (induction ids) (auto split: sum.splits dest: dict_get_not_uri_failure)

lemma revocation_of_lines_not_uri_failure:
  "revocation_of_lines M new p c ids = Inl e \<Longrightarrow> \<not> resource_uri_failure e"
  by (induction ids) (auto split: sum.splits if_splits dest: dict_get_not_uri_failure)

lemma precursors_section_not_uri_failure:
  "precursors_section enum M prec i2c ms ids = Inl e \<Longrightarrow> \<not> resource_uri_failure e"
  by (induction ids)
     (auto split: sum.splits if_splits dest: precursor_of_lines_not_uri_failure)

lemma revocations_section_not_uri_failure:
  "revocations_section enum M prec revs i2c ms new ids = Inl e \<Longrightarrow> \<not> resource_uri_failure e"
  by (induction ids)
     (auto split: sum.splits if_splits dest: revocation_of_lines_not_uri_failure)

lemma lineage_section_not_uri_failure:
  "lineage_section enum M prec revs i2c ms new = Inl e \<Longrightarrow> \<not> resource_uri_failure e"
  by (auto simp: lineage_section_def split: sum.splits
      dest: precursors_section_not_uri_failure revocations_section_not_uri_failure)

lemma id_change_section_not_uri_failure:
  "id_change_section O' M pairs = Inl e \<Longrightarrow> \<not> resource_uri_failure e"
  by (induction pairs)
     (auto split: sum.splits if_splits dest: dict_get_not_uri_failure)

lemma modified_parent_code_not_uri_failure:
  "modified_parent_code i md codes uris = Inl e \<Longrightarrow> \<not> resource_uri_failure e"
  by (auto simp: modified_parent_code_def split: option.splits if_splits sum.splits
      dest: get_parent_internal_id_not_uri_failure
            get_oncotree_code_from_internal_id_not_uri_failure)

lemma original_parent_code_not_uri_failure:
  "original_parent_code i od codes uris = Inl e \<Longrightarrow> \<not> resource_uri_failure e"
  by (auto simp: original_parent_code_def split: sum.splits
      dest: get_parent_internal_id_not_uri_failure
            get_oncotree_code_from_internal_id_not_uri_failure)

lemma parent_change_not_uri_failure:
  "parent_change i od md codes ouris muris = Inl e \<Longrightarrow> \<not> resource_uri_failure e"
  by (auto simp: parent_change_def split: sum.splits if_splits
      dest: modified_parent_code_not_uri_failure original_parent_code_not_uri_failure)

lemma retained_node_uri_failure:
  "retained_node O' M codes ouris muris i = Inl e \<Longrightarrow> resource_uri_failure e \<Longrightarrow>
     \<exists>od md. map_of O' i = Some od \<and> map_of M i = Some md
       \<and> (py_strip (resource_uri od) = [] \<or> resource_uri od \<noteq> resource_uri md)"
  by (auto simp: retained_node_def dict_get_def split: option.splits sum.splits if_splits
      dest: parent_change_not_uri_failure)

lemma retained_node_fails:
  "map_of O' i = Some od \<Longrightarrow> map_of M i = Some md \<Longrightarrow>
   py_strip (resource_uri od) = [] \<or> resource_uri od \<noteq> resource_uri md \<Longrightarrow>
     \<exists>e. retained_node O' M codes ouris muris i = Inl e"
  by (auto simp: retained_node_def dict_get_def)

lemma retained_section_uri_failure:
  "retained_section O' M codes ouris muris cm pm ids = Inl e \<Longrightarrow> resource_uri_failure e \<Longrightarrow>
     \<exists>i \<in> set ids. \<exists>od md. map_of O' i = Some od \<and> map_of M i = Some md
       \<and> (py_strip (resource_uri od) = [] \<or> resource_uri od \<noteq> resource_uri md)"
proof (induction ids arbitrary: cm pm)
  case Nil
  then show ?case by simp
next
  case (Cons i ids)
  show ?case
  proof (cases "retained_node O' M codes ouris muris i")
    case (Inl e')
    with Cons.prems have "e' = e" by simp
    with Inl Cons.prems(2) retained_node_uri_failure show ?thesis by fastforce
  next
    case (Inr p)
    with Cons.prems(1) obtain cm' pm' where
      "retained_section O' M codes ouris muris cm' pm' ids = Inl e"
      by (cases p) auto
    from Cons.IH [OF this Cons.prems(2)] show ?thesis by auto
  qed
qed

lemma retained_section_fails:
  "i \<in> set ids \<Longrightarrow> map_of O' i = Some od \<Longrightarrow> map_of M i = Some md \<Longrightarrow>
   py_strip (resource_uri od) = [] \<or> resource_uri od \<noteq> resource_uri md \<Longrightarrow>
     \<exists>e. retained_section O' M codes ouris muris cm pm ids = Inl e"
proof (induction ids arbitrary: cm pm)
  case Nil
  then show ?case by simp
next
  case (Cons j ids)
  show ?case
  proof (cases "retained_node O' M codes ouris muris j")
    case (Inl e')
    then show ?thesis by simp
  next
    case (Inr p)
    with retained_node_fails [OF Cons.prems(2,3,4), of codes ouris muris] have "j \<noteq> i"
      by auto
    with Cons.prems have "i \<in> set ids" by simp
    from Cons.IH [OF this Cons.prems(2,3,4)] Inr show ?thesis by (cases p) auto
  qed
qed


lemma keys_map_of: "k \<in> set (dict_keys d) \<longleftrightarrow> map_of d k \<noteq> None"
  by (simp add: dict_keys_def map_of_eq_None_iff)

text \<open>
  Claim C3, as stated: the run fails when a retained node's original resource URI is empty or
  differs between the snapshots, and when an added node has a resource URI; otherwise it does
  not fail on resource URI grounds. The last part does not hold: line 248 strips the original
  URI before the test, so a URI of white space only, unchanged between the snapshots, is fatal.
  In the pair below both ids are retained, no URI is empty and none has changed.
\<close>

theorem blank_resource_uri_is_fatal:
  "map internal_id [tissue None, blank_lung None]
     = map internal_id [tissue (Some []), blank_lung (Some [])]
   \<and> map resource_uri [tissue None, blank_lung None]
     = map resource_uri [tissue (Some []), blank_lung (Some [])]
   \<and> [] \<notin> set (map resource_uri [tissue None, blank_lung None])
   \<and> main sorted_list_of_set sorted_list_of_set True Map.empty
       (original_file [tissue None, blank_lung None])
       (modified_file [tissue (Some []), blank_lung (Some [])])
     = Inl (ResourceUriRequired ''ONC000002: Lung (LUNG)'')
   \<and> resource_uri_failure (ResourceUriRequired ''ONC000002: Lung (LUNG)'')"
  by code_simp

text \<open>
  Claim C3, amended. For every iteration order of the sets: the run fails when some retained
  id has an original resource URI that is empty once stripped of surrounding white space, or
  a resource URI that differs between the snapshots; it fails when some added id has a
  resource URI that is not empty; and when neither is the case, no failure of the run is one
  of the three resource URI failures.
\<close>

theorem resource_uri_rules:
  assumes "iteration_order enum"
  shows "((\<exists>i od md. map_of O' i = Some od \<and> map_of M i = Some md
             \<and> (py_strip (resource_uri od) = [] \<or> resource_uri od \<noteq> resource_uri md))
          \<longrightarrow> (\<exists>e. confirm_changes enum enum_pairs confirmed O' M prec revs ouris muris i2c codes
                      = Inl e))
       \<and> ((\<exists>i md. map_of O' i = None \<and> map_of M i = Some md \<and> resource_uri md \<noteq> [])
          \<longrightarrow> (\<exists>e. confirm_changes enum enum_pairs confirmed O' M prec revs ouris muris i2c codes
                      = Inl e))
       \<and> (\<not> (\<exists>i od md. map_of O' i = Some od \<and> map_of M i = Some md
             \<and> (py_strip (resource_uri od) = [] \<or> resource_uri od \<noteq> resource_uri md))
          \<and> \<not> (\<exists>i md. map_of O' i = None \<and> map_of M i = Some md \<and> resource_uri md \<noteq> [])
          \<longrightarrow> (\<forall>e. confirm_changes enum enum_pairs confirmed O' M prec revs ouris muris i2c codes
                      = Inl e \<longrightarrow> \<not> resource_uri_failure e))"
proof -
  let ?orig = "set (dict_keys O')" and ?mod = "set (dict_keys M)"
  let ?new = "sorted_list_of_set (?mod - ?orig)"
  let ?both = "enum (?orig \<inter> ?mod)"
  let ?run = "confirm_changes enum enum_pairs confirmed O' M prec revs ouris muris i2c codes"
  have new: "set ?new = ?mod - ?orig" by simp
  have both: "set ?both = ?orig \<inter> ?mod"
    using assms by (simp add: iteration_order_def)
  have retained: "\<exists>e. ?run = Inl e"
    if "map_of O' i = Some od" "map_of M i = Some md"
       "py_strip (resource_uri od) = [] \<or> resource_uri od \<noteq> resource_uri md" for i od md
  proof -
    from that have "i \<in> set ?both" unfolding both by (simp add: keys_map_of)
    from retained_section_fails [OF this that, of codes ouris muris "[]" "[]"]
    show ?thesis
      by (auto simp: confirm_changes_def Let_def split: sum.splits prod.splits)
  qed
  have added: "\<exists>e. ?run = Inl e"
    if "map_of O' i = None" "map_of M i = Some md" "resource_uri md \<noteq> []" for i md
  proof -
    from that have "i \<in> set ?new" unfolding new by (simp add: keys_map_of)
    from new_section_fails [OF this that(2,3), of codes muris]
    show ?thesis
      by (auto simp: confirm_changes_def Let_def split: sum.splits prod.splits)
  qed
  have none: "\<not> resource_uri_failure e"
    if r: "\<not> (\<exists>i od md. map_of O' i = Some od \<and> map_of M i = Some md
             \<and> (py_strip (resource_uri od) = [] \<or> resource_uri od \<noteq> resource_uri md))"
      and a: "\<not> (\<exists>i md. map_of O' i = None \<and> map_of M i = Some md \<and> resource_uri md \<noteq> [])"
      and e: "?run = Inl e" for e
  proof
    assume f: "resource_uri_failure e"
    have n: "\<not> (new_section M codes muris ?new = Inl e)"
    proof
      assume "new_section M codes muris ?new = Inl e"
      from new_section_uri_failure [OF this f] obtain i md where
        "i \<in> set ?new" "map_of M i = Some md" "resource_uri md \<noteq> []" by blast
      moreover from this(1) have "map_of O' i = None"
        unfolding new by (simp add: keys_map_of)
      ultimately show False using a by blast
    qed
    have k: "\<not> (retained_section O' M codes ouris muris [] [] ?both = Inl e)"
    proof
      assume "retained_section O' M codes ouris muris [] [] ?both = Inl e"
      from retained_section_uri_failure [OF this f] r show False by blast
    qed
    from e f n k show False
      by (auto simp: confirm_changes_def Let_def split: sum.splits prod.splits if_splits
          dest: removed_section_not_uri_failure lineage_section_not_uri_failure
                id_change_section_not_uri_failure)
  qed
  from retained added none show ?thesis by blast
qed


theorem resource_uri_rules_witness:
  "(\<exists>e. confirm_changes sorted_list_of_set sorted_list_of_set True
          [(''ONC000001'', tissue None), (''ONC000002'', lung None)]
          [(''ONC000001'', tissue (Some [])),
           (''ONC000002'', (lung (Some []))\<lparr>resource_uri := ''http://oncotree/U7''\<rparr>)]
          [] [] [] [] Map.empty [] = Inl e)
   \<and> (\<exists>e. confirm_changes sorted_list_of_set sorted_list_of_set True
          [(''ONC000001'', tissue None)]
          [(''ONC000001'', tissue (Some [])), (''ONC000002'', lung (Some []))]
          [] [] [] [] Map.empty [] = Inl e)
   \<and> \<not> (\<exists>e. confirm_changes sorted_list_of_set sorted_list_of_set True
          [(''ONC000001'', tissue None)] [(''ONC000001'', tissue (Some []))]
          [] [] [] [] Map.empty [] = Inl e \<and> resource_uri_failure e)"
proof -
  have io: "iteration_order (sorted_list_of_set :: string set \<Rightarrow> string list)"
    by (simp add: iteration_order_def)
  have h1: "\<exists>i od md. map_of [(''ONC000001'', tissue None), (''ONC000002'', lung None)] i = Some od
      \<and> map_of [(''ONC000001'', tissue (Some [])),
           (''ONC000002'', (lung (Some []))\<lparr>resource_uri := ''http://oncotree/U7''\<rparr>)] i = Some md
      \<and> (py_strip (resource_uri od) = [] \<or> resource_uri od \<noteq> resource_uri md)"
    by (rule exI [of _ "''ONC000002''"]) (simp add: lung_def node_def)
  have h2: "\<exists>i md. map_of [(''ONC000001'', tissue None)] i = None
      \<and> map_of [(''ONC000001'', tissue (Some [])), (''ONC000002'', lung (Some []))] i = Some md
      \<and> resource_uri md \<noteq> []"
    by (rule exI [of _ "''ONC000002''"]) (simp add: lung_def node_def)
  have u: "py_strip (resource_uri (tissue None)) \<noteq> []"
    by code_simp
  have h3: "\<not> (\<exists>i od md. map_of [(''ONC000001'', tissue None)] i = Some od
        \<and> map_of [(''ONC000001'', tissue (Some []))] i = Some md
        \<and> (py_strip (resource_uri od) = [] \<or> resource_uri od \<noteq> resource_uri md))
      \<and> \<not> (\<exists>i md. map_of [(''ONC000001'', tissue None)] i = None
        \<and> map_of [(''ONC000001'', tissue (Some []))] i = Some md \<and> resource_uri md \<noteq> [])"
    using u by (auto simp: tissue_def node_def split: if_splits)
  note inst = resource_uri_rules [OF io, where enum_pairs = sorted_list_of_set and confirmed = True
      and prec = "[]" and revs = "[]" and ouris = "[]" and muris = "[]" and i2c = Map.empty
      and codes = "[]"]
  from h1 inst [where O' = "[(''ONC000001'', tissue None), (''ONC000002'', lung None)]"
      and M = "[(''ONC000001'', tissue (Some [])),
           (''ONC000002'', (lung (Some []))\<lparr>resource_uri := ''http://oncotree/U7''\<rparr>)]"]
  have c1: "\<exists>e. confirm_changes sorted_list_of_set sorted_list_of_set True
          [(''ONC000001'', tissue None), (''ONC000002'', lung None)]
          [(''ONC000001'', tissue (Some [])),
           (''ONC000002'', (lung (Some []))\<lparr>resource_uri := ''http://oncotree/U7''\<rparr>)]
          [] [] [] [] Map.empty [] = Inl e"
    by blast
  from h2 inst [where O' = "[(''ONC000001'', tissue None)]"
      and M = "[(''ONC000001'', tissue (Some [])), (''ONC000002'', lung (Some []))]"]
  have c2: "\<exists>e. confirm_changes sorted_list_of_set sorted_list_of_set True
          [(''ONC000001'', tissue None)]
          [(''ONC000001'', tissue (Some [])), (''ONC000002'', lung (Some []))]
          [] [] [] [] Map.empty [] = Inl e"
    by blast
  from h3 inst [where O' = "[(''ONC000001'', tissue None)]"
      and M = "[(''ONC000001'', tissue (Some []))]"]
  have c3': "\<not> (\<exists>e. confirm_changes sorted_list_of_set sorted_list_of_set True
          [(''ONC000001'', tissue None)] [(''ONC000001'', tissue (Some []))]
          [] [] [] [] Map.empty [] = Inl e \<and> resource_uri_failure e)"
    by blast
  from c1 c2 c3' show ?thesis by blast
qed

text \<open>
  Claim C6. The parent comparison is made for every retained id but the root, the node whose
  oncotree code is \<^verbatim>\<open>TISSUE\<close>. The code recognises the root by the internal id
  \<^verbatim>\<open>ONC000001\<close> (line 259, under the comment that tissue has no parents), while
  validation recognises it by its oncotree code (lines 360 and 382--386). In the pair below the
  root row carries another internal id: both files pass validation, the root is retained, the
  comparison is made on it and the run ends with the failure of a missing parent reference.
\<close>

theorem tissue_under_other_id_is_compared:
  "oncotree_code (other_tissue None) = ''TISSUE''
   \<and> oncotree_code (other_tissue (Some [])) = ''TISSUE''
   \<and> main sorted_list_of_set sorted_list_of_set True Map.empty
       (original_file [other_tissue None, lung None])
       (modified_file [other_tissue (Some []), lung (Some [])])
     = Inl (ParentReferenceMissing ''ONC000100'')"
  by code_simp















lemma index_get_update:
  "index_get (AList.update k v d) k' = (if k' = k then v else index_get d k')"
  by (simp add: index_get_def update_conv')

lemma index_add_within:
  "index_within d A \<Longrightarrow> iid \<in> A \<Longrightarrow> index_within (index_add d iid ks) A"
proof (induction ks arbitrary: d)
  case Nil
  then show ?case by simp
next
  case (Cons k ks)
  have "index_within (AList.update k (insert iid (index_get d k)) d) A"
    using Cons.prems by (simp add: index_within_def index_get_update)
  from Cons.IH [OF this Cons.prems(2)] show ?case by simp
qed

lemma get_all_precursors_from_within:
  "index_within d A \<Longrightarrow> internal_id ` set rs \<subseteq> A
     \<Longrightarrow> index_within (get_all_precursors_from d rs) A"
proof (induction rs arbitrary: d)
  case Nil
  then show ?case by simp
next
  case (Cons r rs)
  from Cons.prems have "internal_id r \<in> A" and rest: "internal_id ` set rs \<subseteq> A" by auto
  with Cons.prems(1)
  have "index_within
          (if precursors r \<noteq> [] then index_add d (internal_id r) (py_split (precursors r)) else d)
          A"
    by (simp add: index_add_within)
  from Cons.IH [OF this rest] show ?case by simp
qed

lemma get_all_revocations_from_within:
  "index_within d A \<Longrightarrow> internal_id ` set rs \<subseteq> A
     \<Longrightarrow> index_within (get_all_revocations_from d rs) A"
proof (induction rs arbitrary: d)
  case Nil
  then show ?case by simp
next
  case (Cons r rs)
  from Cons.prems have "internal_id r \<in> A" and rest: "internal_id ` set rs \<subseteq> A" by auto
  with Cons.prems(1)
  have "index_within
          (if revocations r \<noteq> [] then index_add d (internal_id r) (py_split (revocations r)) else d)
          A"
    by (simp add: index_add_within)
  from Cons.IH [OF this rest] show ?case by simp
qed

lemma get_oncotree_from_keys:
  "set (dict_keys (fst (get_oncotree_from d w rs))) = set (dict_keys d) \<union> internal_id ` set rs"
proof (induction rs arbitrary: d w)
  case Nil
  then show ?case by simp
next
  case (Cons r rs)
  have "set (dict_keys (AList.update (internal_id r) r d)) = insert (internal_id r) (set (dict_keys d))"
    by (simp add: dict_keys_def dom_update)
  then show ?case by (simp add: Cons.IH Let_def)
qed

lemma get_oncotree_keys:
  "set (dict_keys (fst (get_oncotree f))) = internal_id ` set (rows f)"
  using get_oncotree_from_keys [of "[]" "[]" "rows f"]
  by (simp add: get_oncotree_def dict_keys_def)

lemma empty_index_within: "index_within [] A"
  by (simp add: index_within_def index_get_def)

lemma indices_within_modified:
  "index_within (get_all_precursors f) (set (dict_keys (fst (get_oncotree f))))"
  "index_within (get_all_revocations f) (set (dict_keys (fst (get_oncotree f))))"
  by (simp_all add: get_all_precursors_def get_all_revocations_def get_oncotree_keys
      get_all_precursors_from_within get_all_revocations_from_within empty_index_within)


lemma precursor_of_lines_returns:
  "set ids \<subseteq> set (dict_keys M) \<Longrightarrow> \<exists>ls. precursor_of_lines M p c ids = Inr ls"
proof (induction ids)
  case Nil
  then show ?case by simp
next
  case (Cons i ids)
  then obtain ls where "precursor_of_lines M p c ids = Inr ls" by auto
  moreover from Cons.prems obtain data where "map_of M i = Some data"
    by (auto simp: keys_map_of)
  ultimately show ?case by (simp add: dict_get_def)
qed

lemma revocation_of_lines_fails_iff:
  "set ids \<subseteq> set (dict_keys M) \<Longrightarrow>
     (\<exists>e. revocation_of_lines M new p c ids = Inl e) \<longleftrightarrow> (\<exists>i \<in> set ids. i \<in> new)"
proof (induction ids)
  case Nil
  then show ?case by simp
next
  case (Cons i ids)
  from Cons.prems obtain data where data: "map_of M i = Some data"
    by (auto simp: keys_map_of)
  from Cons have IH: "(\<exists>e. revocation_of_lines M new p c ids = Inl e) \<longleftrightarrow> (\<exists>i \<in> set ids. i \<in> new)"
    by simp
  show ?case
  proof (cases "i \<in> new")
    case True
    then show ?thesis by simp
  next
    case False
    with data have "(\<exists>e. revocation_of_lines M new p c (i # ids) = Inl e)
        \<longleftrightarrow> (\<exists>e. revocation_of_lines M new p c ids = Inl e)"
      by (cases "revocation_of_lines M new p c ids") (simp_all add: dict_get_def)
    with IH False show ?thesis by simp
  qed
qed

lemma precursors_section_fails_iff:
  assumes "iteration_order enum" and "index_within prec (set (dict_keys M))"
  shows "(\<exists>e. precursors_section enum M prec i2c ms ids = Inl e) \<longleftrightarrow> (\<exists>k \<in> set ids. k \<in> ms)"
proof (induction ids)
  case Nil
  then show ?case by simp
next
  case (Cons k ids)
  show ?case
  proof (cases "k \<in> ms")
    case True
    then show ?thesis by simp
  next
    case False
    from assms have "set (enum (index_get prec k)) \<subseteq> set (dict_keys M)"
      by (simp add: iteration_order_def index_within_def)
    from precursor_of_lines_returns [OF this] obtain ls where
      "precursor_of_lines M k (code_or_unknown i2c k) (enum (index_get prec k)) = Inr ls"
      by blast
    with False have "(\<exists>e. precursors_section enum M prec i2c ms (k # ids) = Inl e)
        \<longleftrightarrow> (\<exists>e. precursors_section enum M prec i2c ms ids = Inl e)"
      by (cases "precursors_section enum M prec i2c ms ids") simp_all
    with Cons.IH False show ?thesis by simp
  qed
qed

lemma revocations_section_fails_iff:
  assumes "iteration_order enum" and "index_within revs (set (dict_keys M))"
  shows "(\<exists>e. revocations_section enum M prec revs i2c ms new ids = Inl e) \<longleftrightarrow>
     (\<exists>k \<in> set ids. k \<in> ms \<or> map_of prec k \<noteq> None \<or> (\<exists>i \<in> index_get revs k. i \<in> new))"
proof (induction ids)
  case Nil
  then show ?case by simp
next
  case (Cons k ids)
  from assms have en: "set (enum (index_get revs k)) = index_get revs k"
    and sub: "set (enum (index_get revs k)) \<subseteq> set (dict_keys M)"
    by (simp_all add: iteration_order_def index_within_def)
  note inner = revocation_of_lines_fails_iff [OF sub, of new k "code_or_unknown i2c k"]
  show ?case
  proof (cases "k \<in> ms \<or> map_of prec k \<noteq> None")
    case True
    then show ?thesis by auto
  next
    case False
    show ?thesis
    proof (cases "revocation_of_lines M new k (code_or_unknown i2c k) (enum (index_get revs k))")
      case (Inl e)
      with inner en have "\<exists>i \<in> index_get revs k. i \<in> new" by auto
      moreover from Inl False
      have "\<exists>e. revocations_section enum M prec revs i2c ms new (k # ids) = Inl e"
        by auto
      ultimately show ?thesis by auto
    next
      case (Inr ls)
      with inner en have none: "\<not> (\<exists>i \<in> index_get revs k. i \<in> new)" by auto
      from Inr False have "(\<exists>e. revocations_section enum M prec revs i2c ms new (k # ids) = Inl e)
        \<longleftrightarrow> (\<exists>e. revocations_section enum M prec revs i2c ms new ids = Inl e)"
        by (cases "revocations_section enum M prec revs i2c ms new ids") auto
      with Cons.IH False none show ?thesis by auto
    qed
  qed
qed


lemma lineage_section_fails_iff_sections:
  "(\<exists>e. lineage_section enum M prec revs i2c ms new = Inl e) \<longleftrightarrow>
     (\<exists>e. precursors_section enum M prec i2c ms (sort (dict_keys prec)) = Inl e)
     \<or> (\<exists>e. revocations_section enum M prec revs i2c ms new (sort (dict_keys revs)) = Inl e)"
  by (cases "precursors_section enum M prec i2c ms (sort (dict_keys prec))";
      cases "revocations_section enum M prec revs i2c ms new (sort (dict_keys revs))")
     (simp_all add: lineage_section_def)

text \<open>
  Claim C4. With the node map and the two indices built from the modified snapshot, and for
  every iteration order of the sets, the lineage part of the run (precursor summary, then
  revocation summary) fails exactly when a key of the precursor index is an id of the modified
  snapshot, or a key of the revocation index is an id of the modified snapshot, or a key of the
  revocation index is a key of the precursor index, or an id in a value set of the revocation
  index is a new id. So a revoking node that is in both snapshots is no failure.
\<close>

theorem lineage_section_fails_iff:
  assumes "iteration_order enum"
  shows "let modified_oncotree = fst (get_oncotree modified);
             precursor_id_to_internal_ids = get_all_precursors modified;
             revocation_id_to_internal_ids = get_all_revocations modified;
             modified_internal_id_set = set (dict_keys modified_oncotree);
             new_internal_ids = modified_internal_id_set - set (dict_keys original_oncotree)
         in (\<exists>e. lineage_section enum modified_oncotree precursor_id_to_internal_ids
                    revocation_id_to_internal_ids internal_id_to_oncocodes
                    modified_internal_id_set new_internal_ids = Inl e)
            \<longleftrightarrow>
              (\<exists>k \<in> set (dict_keys precursor_id_to_internal_ids). k \<in> modified_internal_id_set)
            \<or> (\<exists>k \<in> set (dict_keys revocation_id_to_internal_ids). k \<in> modified_internal_id_set)
            \<or> (\<exists>k \<in> set (dict_keys revocation_id_to_internal_ids).
                  k \<in> set (dict_keys precursor_id_to_internal_ids))
            \<or> (\<exists>k \<in> set (dict_keys revocation_id_to_internal_ids).
                  \<exists>i \<in> index_get revocation_id_to_internal_ids k. i \<in> new_internal_ids)"
proof -
  let ?M = "fst (get_oncotree modified)"
  let ?prec = "get_all_precursors modified" and ?revs = "get_all_revocations modified"
  let ?ms = "set (dict_keys ?M)"
  let ?new = "?ms - set (dict_keys original_oncotree)"
  have "(\<exists>e. lineage_section enum ?M ?prec ?revs internal_id_to_oncocodes ?ms ?new = Inl e)
      \<longleftrightarrow> (\<exists>k \<in> set (dict_keys ?prec). k \<in> ?ms)
        \<or> (\<exists>k \<in> set (dict_keys ?revs).
              k \<in> ?ms \<or> map_of ?prec k \<noteq> None \<or> (\<exists>i \<in> index_get ?revs k. i \<in> ?new))"
    unfolding lineage_section_fails_iff_sections
      precursors_section_fails_iff [OF assms indices_within_modified(1)]
      revocations_section_fails_iff [OF assms indices_within_modified(2)]
    by simp
  also have "\<dots> \<longleftrightarrow> (\<exists>k \<in> set (dict_keys ?prec). k \<in> ?ms)
        \<or> (\<exists>k \<in> set (dict_keys ?revs). k \<in> ?ms)
        \<or> (\<exists>k \<in> set (dict_keys ?revs). k \<in> set (dict_keys ?prec))
        \<or> (\<exists>k \<in> set (dict_keys ?revs). \<exists>i \<in> index_get ?revs k. i \<in> ?new)"
    unfolding keys_map_of [of _ ?prec, symmetric] by blast
  finally show ?thesis unfolding Let_def .
qed


theorem lineage_section_fails_iff_witness:
  "(\<exists>e. lineage_section sorted_list_of_set
          (fst (get_oncotree (modified_file [tissue (Some []), revoking_lung (Some [])])))
          (get_all_precursors (modified_file [tissue (Some []), revoking_lung (Some [])]))
          (get_all_revocations (modified_file [tissue (Some []), revoking_lung (Some [])]))
          Map.empty
          (set (dict_keys
             (fst (get_oncotree (modified_file [tissue (Some []), revoking_lung (Some [])])))))
          (set (dict_keys
             (fst (get_oncotree (modified_file [tissue (Some []), revoking_lung (Some [])]))))
           - set (dict_keys [(''ONC000001'', tissue None)])) = Inl e)
   \<and> \<not> (\<exists>e. lineage_section sorted_list_of_set
          (fst (get_oncotree (modified_file [tissue (Some []), merged_lung (Some [])])))
          (get_all_precursors (modified_file [tissue (Some []), merged_lung (Some [])]))
          (get_all_revocations (modified_file [tissue (Some []), merged_lung (Some [])]))
          Map.empty
          (set (dict_keys
             (fst (get_oncotree (modified_file [tissue (Some []), merged_lung (Some [])])))))
          (set (dict_keys
             (fst (get_oncotree (modified_file [tissue (Some []), merged_lung (Some [])]))))
           - set (dict_keys [(''ONC000001'', tissue None), (''ONC000002'', lung None)]))
          = Inl e)"
proof -
  let ?fa = "modified_file [tissue (Some []), revoking_lung (Some [])]"
  let ?fb = "modified_file [tissue (Some []), merged_lung (Some [])]"
  have io: "iteration_order (sorted_list_of_set :: string set \<Rightarrow> string list)"
    by (simp add: iteration_order_def)
  have MA: "fst (get_oncotree ?fa)
              = [(''ONC000001'', tissue (Some [])), (''ONC000002'', revoking_lung (Some []))]"
    and MB: "fst (get_oncotree ?fb)
              = [(''ONC000001'', tissue (Some [])), (''ONC000002'', merged_lung (Some []))]"
    by code_simp+
  have PA: "get_all_precursors ?fa = []"
    and RB: "get_all_revocations ?fb = []"
    by code_simp+
  have RA: "get_all_revocations ?fa = [(''ONC000007'', {''ONC000002''})]"
    and PB: "get_all_precursors ?fb
               = [(''ONC000007'', {''ONC000002''}), (''ONC000008'', {''ONC000002''})]"
    by code_simp+
  have A: "\<exists>e. lineage_section sorted_list_of_set (fst (get_oncotree ?fa))
          (get_all_precursors ?fa) (get_all_revocations ?fa) Map.empty
          (set (dict_keys (fst (get_oncotree ?fa))))
          (set (dict_keys (fst (get_oncotree ?fa)))
           - set (dict_keys [(''ONC000001'', tissue None)])) = Inl e"
    using lineage_section_fails_iff [OF io, of ?fa "[(''ONC000001'', tissue None)]" Map.empty]
    unfolding Let_def MA PA RA by (simp add: dict_keys_def index_get_def)
  have B: "\<not> (\<exists>e. lineage_section sorted_list_of_set (fst (get_oncotree ?fb))
          (get_all_precursors ?fb) (get_all_revocations ?fb) Map.empty
          (set (dict_keys (fst (get_oncotree ?fb))))
          (set (dict_keys (fst (get_oncotree ?fb)))
           - set (dict_keys [(''ONC000001'', tissue None), (''ONC000002'', lung None)]))
          = Inl e)"
    using lineage_section_fails_iff [OF io, of ?fb "[(''ONC000001'', tissue None), (''ONC000002'', lung None)]"
        Map.empty]
    unfolding Let_def MB PB RB by (simp add: dict_keys_def index_get_def)
  from A B show ?thesis by (rule conjI)
qed


section \<open>Order of the report\<close>

lemma sorted_list_of_set_iteration_order:
  "iteration_order (sorted_list_of_set :: string set \<Rightarrow> string list)"
  by (simp add: iteration_order_def)

lemma rev_sorted_list_of_set_iteration_order:
  "iteration_order (rev \<circ> (sorted_list_of_set :: string set \<Rightarrow> string list))"
  by (simp add: iteration_order_def)

text \<open>
  Claim C7. Two runs on the same pair of snapshots give the same report, every list of it in
  identifier order. The code sorts the removed ids, the new ids and the keys of the two
  lineage indices, and walks the set of retained ids (and the set of candidate pairs) in the
  set's own order: on the pair below, where two retained nodes change their code, one
  iteration order of the retained set gives the code changes in identifier order and another
  gives them reversed.
\<close>

theorem confirm_changes_report_depends_on_set_order:
  "main sorted_list_of_set sorted_list_of_set True Map.empty
     (original_file [tissue None, lung None, brain None])
     (modified_file [tissue (Some []), (lung (Some []))\<lparr>oncotree_code := ''LUNGS''\<rparr>,
        (brain (Some []))\<lparr>oncotree_code := ''BRAINS''\<rparr>])
   = Inr \<lparr>removed_lines = [], new_lines = [], precursor_lines = [], revocation_lines = [],
          id_change_lines = [],
          code_change_messages =
            [CHR 0x09 # quoted ''ONC000002: Lung (LUNG)'' @ '' -> ''
               @ quoted ''ONC000002: Lung (LUNGS)'',
             CHR 0x09 # quoted ''ONC000003: Brain (BRAIN)'' @ '' -> ''
               @ quoted ''ONC000003: Brain (BRAINS)''],
          parent_change_messages = []\<rparr>
   \<and> main (rev \<circ> sorted_list_of_set) sorted_list_of_set True Map.empty
     (original_file [tissue None, lung None, brain None])
     (modified_file [tissue (Some []), (lung (Some []))\<lparr>oncotree_code := ''LUNGS''\<rparr>,
        (brain (Some []))\<lparr>oncotree_code := ''BRAINS''\<rparr>])
   = Inr \<lparr>removed_lines = [], new_lines = [], precursor_lines = [], revocation_lines = [],
          id_change_lines = [],
          code_change_messages =
            [CHR 0x09 # quoted ''ONC000003: Brain (BRAIN)'' @ '' -> ''
               @ quoted ''ONC000003: Brain (BRAINS)'',
             CHR 0x09 # quoted ''ONC000002: Lung (LUNG)'' @ '' -> ''
               @ quoted ''ONC000002: Lung (LUNGS)''],
          parent_change_messages = []\<rparr>"
  by code_simp

end
